theory Spec2Isabelle
  imports Main "HOL-Library.Word"
begin

section \<open>Constants and wire types of main.go\<close>

text \<open>
  \<^verbatim>\<open>time.Duration\<close> is a signed 64-bit count of nanoseconds. Arithmetic on it wraps
  around without a panic; comparisons are signed (\<open><s\<close>).
\<close>

type_synonym Duration = "64 word"

definition Second :: Duration where
  "Second = 1000000000"

definition Minute :: Duration where
  "Minute = 60 * Second"

definition Hour :: Duration where
  "Hour = 60 * Minute"

definition assetStatusUploaded :: string where
  "assetStatusUploaded = ''uploaded''"

definition defaultDownloadTimeout :: Duration where
  "defaultDownloadTimeout = Minute"

definition maxDownloadTimeout :: Duration where
  "maxDownloadTimeout = Hour * 24"

definition uploadTimeout :: Duration where
  "uploadTimeout = Hour * 24"

definition StatusOK :: nat where "StatusOK = 200"
definition StatusAccepted :: nat where "StatusAccepted = 202"
definition StatusBadRequest :: nat where "StatusBadRequest = 400"
definition StatusNotFound :: nat where "StatusNotFound = 404"
definition StatusMethodNotAllowed :: nat where "StatusMethodNotAllowed = 405"
definition StatusInternalServerError :: nat where "StatusInternalServerError = 500"
definition StatusServiceUnavailable :: nat where "StatusServiceUnavailable = 503"

definition MethodGet :: string where "MethodGet = ''GET''"
definition MethodPost :: string where "MethodPost = ''POST''"
definition MethodPut :: string where "MethodPut = ''PUT''"

definition ErrCodeConditionalCheckFailedException :: string where
  "ErrCodeConditionalCheckFailedException = ''ConditionalCheckFailedException''"

record initAssetResponse =
  UploadURL :: string
  ID :: string

record assetURLResponse =
  DownloadURL :: string

record markUploadedRequest =
  Status :: string

text \<open>
  A Go \<^verbatim>\<open>error\<close> value that is not nil. The type assertion
  \<^verbatim>\<open>err.(awserr.Error)\<close> succeeds on \<open>AwsError code message\<close> and fails on
  \<open>OtherError text\<close>.
\<close>

datatype error = AwsError string string | OtherError string

fun Error :: "error \<Rightarrow> string" where
  "Error (AwsError code message) = code @ '': '' @ message"
| "Error (OtherError text) = text"

section \<open>The HTTP request and the response writer\<close>

text \<open>
  \<open>URL_Query\<close> is the parsed query of the request, \<^verbatim>\<open>r.URL.Query()\<close>, a
  \<^verbatim>\<open>map[string][]string\<close>.
\<close>

record Request =
  Method :: string
  URL_Path :: string
  URL_Query :: "string \<rightharpoonup> string list"
  Body :: string

text \<open>
  What a handler has written to its \<^verbatim>\<open>http.ResponseWriter\<close>. A JSON document
  produced by \<^verbatim>\<open>json.Encoder.Encode\<close> is kept as the struct that was encoded.
\<close>

datatype written =
    Line string
  | InitAssetJSON initAssetResponse
  | AssetURLJSON assetURLResponse

text \<open>
  \<open>StatusCode\<close> is \<open>None\<close> until the header has been written, by
  \<^verbatim>\<open>WriteHeader\<close> or by the first \<^verbatim>\<open>Write\<close>.
\<close>

record ResponseWriter =
  Header :: "string \<rightharpoonup> string"
  StatusCode :: "nat option"
  Output :: "written list"

definition NewRecorder :: ResponseWriter where
  "NewRecorder = \<lparr>Header = Map.empty, StatusCode = None, Output = []\<rparr>"

text \<open>The status the client receives: 200 when the handler never wrote a header.\<close>

definition ResultStatus :: "ResponseWriter \<Rightarrow> nat" where
  "ResultStatus w = (case StatusCode w of None \<Rightarrow> StatusOK | Some c \<Rightarrow> c)"

definition HeaderSet :: "string \<Rightarrow> string \<Rightarrow> ResponseWriter \<Rightarrow> ResponseWriter" where
  "HeaderSet k v w = w\<lparr>Header := (Header w)(k \<mapsto> v)\<rparr>"

text \<open>A second \<^verbatim>\<open>WriteHeader\<close> is ignored.\<close>

definition WriteHeader :: "nat \<Rightarrow> ResponseWriter \<Rightarrow> ResponseWriter" where
  "WriteHeader c w = (case StatusCode w of None \<Rightarrow> w\<lparr>StatusCode := Some c\<rparr> | Some _ \<Rightarrow> w)"

definition Write :: "written \<Rightarrow> ResponseWriter \<Rightarrow> ResponseWriter" where
  "Write x w = (let w1 = WriteHeader StatusOK w in w1\<lparr>Output := Output w1 @ [x]\<rparr>)"

text \<open>\<^verbatim>\<open>http.Error(w, msg, code)\<close>.\<close>

definition http_Error :: "ResponseWriter \<Rightarrow> string \<Rightarrow> nat \<Rightarrow> ResponseWriter" where
  "http_Error w msg c =
     Write (Line msg)
       (WriteHeader c
         (HeaderSet ''X-Content-Type-Options'' ''nosniff''
           (HeaderSet ''Content-Type'' ''text/plain; charset=utf-8'' w)))"

text \<open>\<^verbatim>\<open>url.Values.Get\<close>: the first value of the key, or the empty string.\<close>

definition Get :: "(string \<rightharpoonup> string list) \<Rightarrow> string \<Rightarrow> string" where
  "Get v k = (case v k of None \<Rightarrow> [] | Some [] \<Rightarrow> [] | Some (x # _) \<Rightarrow> x)"

definition Join :: "string list \<Rightarrow> string \<Rightarrow> string" where
  "Join elems sep = (case elems of [] \<Rightarrow> [] | e # es \<Rightarrow> foldl (\<lambda>acc x. acc @ sep @ x) e es)"

definition HasPrefix :: "string \<Rightarrow> string \<Rightarrow> bool" where
  "HasPrefix s p = (take (length p) s = p)"

definition TrimPrefix :: "string \<Rightarrow> string \<Rightarrow> string" where
  "TrimPrefix s p = (if HasPrefix s p then drop (length p) s else s)"

section \<open>The external services\<close>

text \<open>
  A DynamoDB attribute value; only the string member \<open>S\<close> is used by the program.
  It is a pointer in Go: \<open>None\<close> is nil (an attribute of another type).
\<close>

record AttributeValue =
  S :: "string option"

type_synonym Item = "string \<rightharpoonup> AttributeValue"

record PutItemInput =
  put_Item :: Item
  put_TableName :: string
  put_ConditionExpression :: "string option"

record GetItemInput =
  get_Key :: Item
  get_TableName :: string
  get_ConsistentRead :: bool

record GetItemOutput =
  out_Item :: Item

text \<open>
  \<^verbatim>\<open>dynamodbiface.DynamoDBAPI\<close>, the two methods the program calls. The service is
  a parameter: \<open>'db\<close> is the state behind it. \<open>PutItem\<close> returns the error, or
  \<open>None\<close> for nil (the program ignores the output value).
\<close>

record 'db DynamoDBAPI =
  PutItem :: "PutItemInput \<Rightarrow> 'db \<Rightarrow> error option \<times> 'db"
  GetItem :: "GetItemInput \<Rightarrow> 'db \<Rightarrow> (error + GetItemOutput) \<times> 'db"

record ObjectInput =
  Bucket :: string
  Key :: string

text \<open>
  \<^verbatim>\<open>s3iface.S3API\<close>: \<open>PutObjectRequest input\<close> and \<open>GetObjectRequest input\<close>
  stand for the request value; applying it to a duration is \<^verbatim>\<open>req.Presign(d)\<close>.
\<close>

record S3API =
  PutObjectRequest :: "ObjectInput \<Rightarrow> Duration \<Rightarrow> error + string"
  GetObjectRequest :: "ObjectInput \<Rightarrow> Duration \<Rightarrow> error + string"

text \<open>The package-level variables of main.go.\<close>

record 'db globals =
  bucketName :: string
  tableName :: string
  dbSvc :: "'db DynamoDBAPI"
  s3Svc :: S3API

text \<open>
  The effects of a handler: the state behind the record store, the bytes the global
  random source will still produce, and the calls and log lines so far, in order.
\<close>

datatype event =
    PutItemCall PutItemInput "error option"
  | GetItemCall GetItemInput
  | Logged string

record 'db world =
  store :: 'db
  randSrc :: "nat \<Rightarrow> 8 word"
  events :: "event list"

definition callPutItem :: "'db globals \<Rightarrow> PutItemInput \<Rightarrow> 'db world \<Rightarrow> error option \<times> 'db world" where
  "callPutItem g q w =
     (case PutItem (dbSvc g) q (store w) of
        (err, d) \<Rightarrow> (err, w\<lparr>store := d, events := events w @ [PutItemCall q err]\<rparr>))"

definition callGetItem :: "'db globals \<Rightarrow> GetItemInput \<Rightarrow> 'db world \<Rightarrow> (error + GetItemOutput) \<times> 'db world" where
  "callGetItem g q w =
     (case GetItem (dbSvc g) q (store w) of
        (res, d) \<Rightarrow> (res, w\<lparr>store := d, events := events w @ [GetItemCall q]\<rparr>))"

definition log_Println :: "string \<Rightarrow> 'db world \<Rightarrow> 'db world" where
  "log_Println s w = w\<lparr>events := events w @ [Logged s]\<rparr>"

text \<open>\<^verbatim>\<open>rand.Read(p)\<close> fills all of \<open>p\<close> and never fails.\<close>

definition rand_Read :: "nat \<Rightarrow> 'db world \<Rightarrow> 8 word list \<times> 'db world" where
  "rand_Read n w = (map (randSrc w) [0..<n], w\<lparr>randSrc := (\<lambda>i. randSrc w (i + n))\<rparr>)"

section \<open>Library functions the handlers call\<close>

text \<open>\<^verbatim>\<open>base64.RawURLEncoding.EncodeToString\<close>: the URL alphabet, no padding.\<close>

definition encodeURL :: string where
  "encodeURL = ''ABCDEFGHIJKLMNOPQRSTUVWXYZabcdefghijklmnopqrstuvwxyz0123456789-_''"

fun EncodeToString :: "8 word list \<Rightarrow> string" where
  "EncodeToString (a # b # c # src) =
     (let val = unat a * 65536 + unat b * 256 + unat c
      in encodeURL ! (val div 262144 mod 64) # encodeURL ! (val div 4096 mod 64)
         # encodeURL ! (val div 64 mod 64) # encodeURL ! (val mod 64) # EncodeToString src)"
| "EncodeToString [a, b] =
     (let val = unat a * 65536 + unat b * 256
      in [encodeURL ! (val div 262144 mod 64), encodeURL ! (val div 4096 mod 64),
          encodeURL ! (val div 64 mod 64)])"
| "EncodeToString [a] =
     (let val = unat a * 65536
      in [encodeURL ! (val div 262144 mod 64), encodeURL ! (val div 4096 mod 64)])"
| "EncodeToString [] = []"

text \<open>
  \<^verbatim>\<open>strconv.Atoi\<close> where \<^verbatim>\<open>int\<close> has 64 bits: an optional sign, then one or
  more decimal digits and nothing else; a value that does not fit is a range error.
\<close>

definition isDigit :: "char \<Rightarrow> bool" where
  "isDigit ch = (48 \<le> (of_char ch :: nat) \<and> (of_char ch :: nat) \<le> 57)"

definition digitsValue :: "string \<Rightarrow> int" where
  "digitsValue ds = foldl (\<lambda>n ch. n * 10 + (int (of_char ch) - 48)) 0 ds"

definition Atoi :: "string \<Rightarrow> error + 64 word" where
  "Atoi s0 =
     (let s = (case s0 of [] \<Rightarrow> [] | ch # rest \<Rightarrow> if ch = CHR ''-'' \<or> ch = CHR ''+'' then rest else s0);
          neg = (case s0 of [] \<Rightarrow> False | ch # rest \<Rightarrow> ch = CHR ''-'')
      in if s = [] \<or> \<not> list_all isDigit s
         then Inl (OtherError (''strconv.Atoi: parsing '' @ s0 @ '': invalid syntax''))
         else let n = (if neg then - digitsValue s else digitsValue s)
              in if n < - (2 ^ 63) \<or> 2 ^ 63 - 1 < n
                 then Inl (OtherError (''strconv.Atoi: parsing '' @ s0 @ '': value out of range''))
                 else Inr (word_of_int n))"

section \<open>The JSON decoder\<close>

text \<open>
  \<^verbatim>\<open>json.NewDecoder(r.Body).Decode(&reqBody)\<close> of \<^verbatim>\<open>encoding/json\<close>, for the target
  \<^verbatim>\<open>struct { Status string }\<close>. The decoder runs the scanner of the package over the
  body, byte by byte, until the first JSON value is complete, and does not look at the
  bytes after it. A body that ends before the value is complete gives
  \<^verbatim>\<open>io.ErrUnexpectedEOF\<close>, or \<^verbatim>\<open>io.EOF\<close> when it holds white space only; a byte the
  scanner does not expect gives a syntax error. The value is then stored: an object
  sets \<open>Status\<close> from each member whose key matches the field name without regard to
  case, \<^verbatim>\<open>null\<close> changes nothing, and every other kind of value, at the top or under a
  matching key, is a type error, reported after the whole value has been read. Of an
  error only its class is kept: the text stands for the message of the package.
\<close>

datatype parseState = parseObjectKey | parseObjectValue | parseArrayValue

datatype stepState =
    stateBeginValue
  | stateBeginValueOrEmpty
  | stateBeginStringOrEmpty
  | stateBeginString
  | stateEndValue
  | stateInString
  | stateInStringEsc
  | stateInStringEscU nat
  | stateNeg
  | state1
  | state0
  | stateDot
  | stateDot0
  | stateE
  | stateESign
  | stateE0
  | stateLiteral string

datatype valueKind = kindObject | kindArray | kindString | kindNumber | kindBool | kindNull

text \<open>
  The scanner with what the decoder has stored so far: \<open>raw\<close> holds the bytes of the
  string literal being read, \<open>curKey\<close> the last key of the top-level object, \<open>target\<close>
  the field \<open>Status\<close> of the struct, \<open>typeError\<close> whether a type error was saved.
\<close>

record scanner =
  step :: stepState
  parseStack :: "parseState list"
  raw :: string
  curKey :: string
  target :: string
  typeError :: bool

datatype scanResult = scanContinue scanner | scanEnd scanner | scanError

definition maxNestingDepth :: nat where
  "maxNestingDepth = 10000"

definition isSpace :: "char \<Rightarrow> bool" where
  "isSpace c = (c = CHR '' '' \<or> c = CHR 0x09 \<or> c = CHR 0x0D \<or> c = CHR 0x0A)"

definition isDigit19 :: "char \<Rightarrow> bool" where
  "isDigit19 c = (49 \<le> (of_char c :: nat) \<and> (of_char c :: nat) \<le> 57)"

definition isHex :: "char \<Rightarrow> bool" where
  "isHex c = (isDigit c \<or> (97 \<le> (of_char c :: nat) \<and> (of_char c :: nat) \<le> 102)
                \<or> (65 \<le> (of_char c :: nat) \<and> (of_char c :: nat) \<le> 70))"

subsection \<open>Unquoting a string literal\<close>

definition hexValue :: "char \<Rightarrow> nat" where
  "hexValue c =
     (if isDigit c then of_char c - 48
      else if 97 \<le> (of_char c :: nat) then of_char c - 87
      else of_char c - 55)"

text \<open>\<^verbatim>\<open>getu4\<close>: the value of \<^verbatim>\<open>\uXXXX\<close> at the head of the bytes, if there is one.\<close>

definition getu4 :: "string \<Rightarrow> nat option" where
  "getu4 s =
     (case s of
        b # u # h1 # h2 # h3 # h4 # rest \<Rightarrow>
          if b = CHR 0x5C \<and> u = CHR ''u'' \<and> isHex h1 \<and> isHex h2 \<and> isHex h3 \<and> isHex h4
          then Some (((hexValue h1 * 16 + hexValue h2) * 16 + hexValue h3) * 16 + hexValue h4)
          else None
      | _ \<Rightarrow> None)"

text \<open>\<^verbatim>\<open>utf8.EncodeRune\<close>; a surrogate or a value above 0x10FFFF becomes U+FFFD.\<close>

definition encodeRune :: "nat \<Rightarrow> string" where
  "encodeRune r =
     (if r < 128 then [char_of r]
      else if r < 2048 then [char_of (192 + r div 64), char_of (128 + r mod 64)]
      else if (55296 \<le> r \<and> r < 57344) \<or> 1114111 < r then [CHR 0xEF, CHR 0xBF, CHR 0xBD]
      else if r < 65536
      then [char_of (224 + r div 4096), char_of (128 + r div 64 mod 64), char_of (128 + r mod 64)]
      else [char_of (240 + r div 262144), char_of (128 + r div 4096 mod 64),
            char_of (128 + r div 64 mod 64), char_of (128 + r mod 64)])"

text \<open>
  \<^verbatim>\<open>utf8.DecodeRune\<close>, as far as the decoder needs it: the length of the well-formed
  UTF-8 sequence at the head of the bytes, or 0 when there is none.
\<close>

definition isCont :: "char \<Rightarrow> bool" where
  "isCont c = (128 \<le> (of_char c :: nat) \<and> (of_char c :: nat) \<le> 191)"

definition runeLen :: "string \<Rightarrow> nat" where
  "runeLen s =
     (case s of
        [] \<Rightarrow> 0
      | c0 # s1 \<Rightarrow>
          (let b0 = (of_char c0 :: nat)
           in if 194 \<le> b0 \<and> b0 \<le> 223 then
                (case s1 of c1 # _ \<Rightarrow> if isCont c1 then 2 else 0 | _ \<Rightarrow> 0)
              else if 224 \<le> b0 \<and> b0 \<le> 239 then
                (case s1 of
                   c1 # c2 # _ \<Rightarrow>
                     (let b1 = (of_char c1 :: nat)
                      in if (if b0 = 224 then 160 else 128) \<le> b1
                            \<and> b1 \<le> (if b0 = 237 then 159 else 191) \<and> isCont c2
                         then 3 else 0)
                 | _ \<Rightarrow> 0)
              else if 240 \<le> b0 \<and> b0 \<le> 244 then
                (case s1 of
                   c1 # c2 # c3 # _ \<Rightarrow>
                     (let b1 = (of_char c1 :: nat)
                      in if (if b0 = 240 then 144 else 128) \<le> b1
                            \<and> b1 \<le> (if b0 = 244 then 143 else 191) \<and> isCont c2 \<and> isCont c3
                         then 4 else 0)
                 | _ \<Rightarrow> 0)
              else 0))"

definition unescape :: "char \<Rightarrow> char" where
  "unescape e =
     (if e = CHR ''b'' then CHR 0x08
      else if e = CHR ''f'' then CHR 0x0C
      else if e = CHR ''n'' then CHR 0x0A
      else if e = CHR ''r'' then CHR 0x0D
      else if e = CHR ''t'' then CHR 0x09
      else e)"

text \<open>
  \<^verbatim>\<open>unquoteBytes\<close> on the bytes between the quotes of a literal the scanner has
  accepted: escapes are replaced, a surrogate pair of two \<^verbatim>\<open>\u\<close> escapes becomes one
  rune, a lone surrogate and every byte that is not well-formed UTF-8 become U+FFFD.
\<close>

function unquote :: "string \<Rightarrow> string" where
  "unquote [] = []"
| "unquote (c # cs) =
     (if c = CHR 0x5C then
        (case getu4 (c # cs) of
           Some rr \<Rightarrow>
             (if 55296 \<le> rr \<and> rr < 57344 then
                (case getu4 (drop 5 cs) of
                   Some rr1 \<Rightarrow>
                     if rr < 56320 \<and> 56320 \<le> rr1 \<and> rr1 < 57344
                     then encodeRune ((rr - 55296) * 1024 + (rr1 - 56320) + 65536)
                            @ unquote (drop 11 cs)
                     else encodeRune 65533 @ unquote (drop 5 cs)
                 | None \<Rightarrow> encodeRune 65533 @ unquote (drop 5 cs))
              else encodeRune rr @ unquote (drop 5 cs))
         | None \<Rightarrow>
             (case cs of
                [] \<Rightarrow> []
              | e # rest \<Rightarrow> unescape e # unquote rest))
      else if (of_char c :: nat) < 128 then c # unquote cs
      else if runeLen (c # cs) = 0 then encodeRune 65533 @ unquote cs
      else take (runeLen (c # cs)) (c # cs) @ unquote (drop (runeLen (c # cs) - 1) cs))"
  by pat_completeness auto
termination
  by (relation "measure length") auto

subsection \<open>Matching a key with the field name\<close>

definition toUpper :: "char \<Rightarrow> char" where
  "toUpper c =
     (if 97 \<le> (of_char c :: nat) \<and> (of_char c :: nat) \<le> 122
      then ''ABCDEFGHIJKLMNOPQRSTUVWXYZ'' ! ((of_char c :: nat) - 97)
      else c)"

definition isLetter :: "char \<Rightarrow> bool" where
  "isLetter c = (65 \<le> (of_char (toUpper c) :: nat) \<and> (of_char (toUpper c) :: nat) \<le> 90)"

text \<open>
  The folding match of a field name \<open>s\<close> (ASCII) with a key \<open>t\<close>: letters match in
  either case, and the long s (U+017F) matches \<open>s\<close>, the Kelvin sign (U+212A) \<open>k\<close>.
\<close>

fun equalFold :: "string \<Rightarrow> string \<Rightarrow> bool" where
  "equalFold [] t = (t = [])"
| "equalFold (sb # s) [] = False"
| "equalFold (sb # s) (tb # t) =
     (if (of_char tb :: nat) < 128 then
        (if sb = tb \<or> (isLetter sb \<and> toUpper sb = toUpper tb) then equalFold s t else False)
      else if toUpper sb = CHR ''S'' then
        (case t of t1 # t' \<Rightarrow> if tb = CHR 0xC5 \<and> t1 = CHR 0xBF then equalFold s t' else False
                 | _ \<Rightarrow> False)
      else if toUpper sb = CHR ''K'' then
        (case t of
           t1 # t2 # t' \<Rightarrow>
             if tb = CHR 0xE2 \<and> t1 = CHR 0x84 \<and> t2 = CHR 0xAA then equalFold s t' else False
         | _ \<Rightarrow> False)
      else False)"

definition matchesStatus :: "string \<Rightarrow> bool" where
  "matchesStatus key = equalFold ''Status'' key"

subsection \<open>The scanner and what it stores\<close>

text \<open>
  A value begins. At the top level only an object or \<^verbatim>\<open>null\<close> can be stored into the
  struct; under a matching key of the top-level object only a string or \<^verbatim>\<open>null\<close> can
  be stored into the field.
\<close>

definition beginKind :: "valueKind \<Rightarrow> scanner \<Rightarrow> scanner" where
  "beginKind k s =
     (if parseStack s = [] then
        (if k = kindObject \<or> k = kindNull then s else s\<lparr>typeError := True\<rparr>)
      else if parseStack s = [parseObjectValue] \<and> matchesStatus (curKey s) then
        (if k = kindString \<or> k = kindNull then s else s\<lparr>typeError := True\<rparr>)
      else s)"

text \<open>A string literal ends: a key of the top-level object, or a value under one.\<close>

definition endString :: "scanner \<Rightarrow> scanner" where
  "endString s =
     (if parseStack s = [parseObjectKey] then s\<lparr>curKey := unquote (raw s)\<rparr>
      else if parseStack s = [parseObjectValue] \<and> matchesStatus (curKey s)
      then s\<lparr>target := unquote (raw s)\<rparr>
      else s)"

definition pushParseState :: "parseState \<Rightarrow> stepState \<Rightarrow> scanner \<Rightarrow> scanResult" where
  "pushParseState p next s =
     (if length (p # parseStack s) \<le> maxNestingDepth
      then scanContinue (s\<lparr>parseStack := p # parseStack s, step := next\<rparr>)
      else scanError)"

text \<open>
  After a closing bracket: when it closes the top-level value the decoder stops at
  once, without a look at the next byte.
\<close>

definition popParseState :: "scanner \<Rightarrow> scanResult" where
  "popParseState s =
     (let s1 = s\<lparr>parseStack := tl (parseStack s), step := stateEndValue\<rparr>
      in if parseStack s1 = [] then scanEnd s1 else scanContinue s1)"

definition endValue :: "scanner \<Rightarrow> char \<Rightarrow> scanResult" where
  "endValue s c =
     (case parseStack s of
        [] \<Rightarrow> scanEnd s
      | ps # rest \<Rightarrow>
          if isSpace c then scanContinue (s\<lparr>step := stateEndValue\<rparr>)
          else (case ps of
                  parseObjectKey \<Rightarrow>
                    if c = CHR '':''
                    then scanContinue (s\<lparr>parseStack := parseObjectValue # rest, step := stateBeginValue\<rparr>)
                    else scanError
                | parseObjectValue \<Rightarrow>
                    if c = CHR '',''
                    then scanContinue (s\<lparr>parseStack := parseObjectKey # rest, step := stateBeginString\<rparr>)
                    else if c = CHR ''}'' then popParseState s
                    else scanError
                | parseArrayValue \<Rightarrow>
                    if c = CHR '',''
                    then scanContinue (s\<lparr>step := stateBeginValue\<rparr>)
                    else if c = CHR '']'' then popParseState s
                    else scanError))"

definition beginValue :: "scanner \<Rightarrow> char \<Rightarrow> scanResult" where
  "beginValue s c =
     (if isSpace c then scanContinue s
      else if c = CHR ''{'' then pushParseState parseObjectKey stateBeginStringOrEmpty (beginKind kindObject s)
      else if c = CHR ''['' then pushParseState parseArrayValue stateBeginValueOrEmpty (beginKind kindArray s)
      else if c = CHR 0x22 then scanContinue ((beginKind kindString s)\<lparr>step := stateInString, raw := []\<rparr>)
      else if c = CHR ''-'' then scanContinue ((beginKind kindNumber s)\<lparr>step := stateNeg\<rparr>)
      else if c = CHR ''0'' then scanContinue ((beginKind kindNumber s)\<lparr>step := state0\<rparr>)
      else if c = CHR ''t'' then scanContinue ((beginKind kindBool s)\<lparr>step := stateLiteral ''rue''\<rparr>)
      else if c = CHR ''f'' then scanContinue ((beginKind kindBool s)\<lparr>step := stateLiteral ''alse''\<rparr>)
      else if c = CHR ''n'' then scanContinue ((beginKind kindNull s)\<lparr>step := stateLiteral ''ull''\<rparr>)
      else if isDigit19 c then scanContinue ((beginKind kindNumber s)\<lparr>step := state1\<rparr>)
      else scanError)"

definition beginString :: "scanner \<Rightarrow> char \<Rightarrow> scanResult" where
  "beginString s c =
     (if isSpace c then scanContinue s
      else if c = CHR 0x22 then scanContinue (s\<lparr>step := stateInString, raw := []\<rparr>)
      else scanError)"

definition step0 :: "scanner \<Rightarrow> char \<Rightarrow> scanResult" where
  "step0 s c =
     (if c = CHR ''.'' then scanContinue (s\<lparr>step := stateDot\<rparr>)
      else if c = CHR ''e'' \<or> c = CHR ''E'' then scanContinue (s\<lparr>step := stateE\<rparr>)
      else endValue s c)"

definition stepESign :: "scanner \<Rightarrow> char \<Rightarrow> scanResult" where
  "stepESign s c =
     (if isDigit c then scanContinue (s\<lparr>step := stateE0\<rparr>) else scanError)"

fun scanStep :: "stepState \<Rightarrow> scanner \<Rightarrow> char \<Rightarrow> scanResult" where
  "scanStep stateBeginValue s c = beginValue s c"
| "scanStep stateBeginValueOrEmpty s c =
     (if isSpace c then scanContinue s
      else if c = CHR '']'' then endValue s c
      else beginValue s c)"
| "scanStep stateBeginStringOrEmpty s c =
     (if isSpace c then scanContinue s
      else if c = CHR ''}''
      then endValue (s\<lparr>parseStack := parseObjectValue # tl (parseStack s)\<rparr>) c
      else beginString s c)"
| "scanStep stateBeginString s c = beginString s c"
| "scanStep stateEndValue s c = endValue s c"
| "scanStep stateInString s c =
     (if c = CHR 0x22 then scanContinue ((endString s)\<lparr>step := stateEndValue\<rparr>)
      else if c = CHR 0x5C then scanContinue (s\<lparr>step := stateInStringEsc, raw := raw s @ [c]\<rparr>)
      else if (of_char c :: nat) < 32 then scanError
      else scanContinue (s\<lparr>raw := raw s @ [c]\<rparr>))"
| "scanStep stateInStringEsc s c =
     (if c = CHR ''b'' \<or> c = CHR ''f'' \<or> c = CHR ''n'' \<or> c = CHR ''r'' \<or> c = CHR ''t''
         \<or> c = CHR 0x5C \<or> c = CHR ''/'' \<or> c = CHR 0x22
      then scanContinue (s\<lparr>step := stateInString, raw := raw s @ [c]\<rparr>)
      else if c = CHR ''u'' then scanContinue (s\<lparr>step := stateInStringEscU 4, raw := raw s @ [c]\<rparr>)
      else scanError)"
| "scanStep (stateInStringEscU n) s c =
     (if isHex c
      then scanContinue (s\<lparr>step := (if n \<le> 1 then stateInString else stateInStringEscU (n - 1)),
                            raw := raw s @ [c]\<rparr>)
      else scanError)"
| "scanStep stateNeg s c =
     (if c = CHR ''0'' then scanContinue (s\<lparr>step := state0\<rparr>)
      else if isDigit19 c then scanContinue (s\<lparr>step := state1\<rparr>)
      else scanError)"
| "scanStep state1 s c =
     (if isDigit c then scanContinue (s\<lparr>step := state1\<rparr>)
      else step0 s c)"
| "scanStep state0 s c = step0 s c"
| "scanStep stateDot s c =
     (if isDigit c then scanContinue (s\<lparr>step := stateDot0\<rparr>) else scanError)"
| "scanStep stateDot0 s c =
     (if isDigit c then scanContinue s
      else if c = CHR ''e'' \<or> c = CHR ''E'' then scanContinue (s\<lparr>step := stateE\<rparr>)
      else endValue s c)"
| "scanStep stateE s c =
     (if c = CHR ''+'' \<or> c = CHR ''-'' then scanContinue (s\<lparr>step := stateESign\<rparr>)
      else stepESign s c)"
| "scanStep stateESign s c = stepESign s c"
| "scanStep stateE0 s c =
     (if isDigit c then scanContinue s else endValue s c)"
| "scanStep (stateLiteral rest) s c =
     (case rest of
        [] \<Rightarrow> scanError
      | x # xs \<Rightarrow>
          if c = x
          then scanContinue (s\<lparr>step := (if xs = [] then stateEndValue else stateLiteral xs)\<rparr>)
          else scanError)"

datatype jsonError = EOF | ErrUnexpectedEOF | SyntaxError | UnmarshalTypeError

text \<open>
  \<^verbatim>\<open>readValue\<close> and the store in one pass. At the end of the body the scanner is given
  one space, which completes a number, a literal or a string at the top level.
\<close>

fun decodeFrom :: "scanner \<Rightarrow> string \<Rightarrow> jsonError + markUploadedRequest" where
  "decodeFrom s [] =
     (case scanStep (step s) s (CHR '' '') of
        scanEnd s1 \<Rightarrow> if typeError s1 then Inl UnmarshalTypeError else Inr \<lparr>Status = target s1\<rparr>
      | _ \<Rightarrow> Inl ErrUnexpectedEOF)"
| "decodeFrom s (c # cs) =
     (case scanStep (step s) s c of
        scanError \<Rightarrow> Inl SyntaxError
      | scanEnd s1 \<Rightarrow> if typeError s1 then Inl UnmarshalTypeError else Inr \<lparr>Status = target s1\<rparr>
      | scanContinue s1 \<Rightarrow> decodeFrom s1 cs)"

definition jsonErrorText :: "jsonError \<Rightarrow> string" where
  "jsonErrorText e =
     (case e of
        EOF \<Rightarrow> ''EOF''
      | ErrUnexpectedEOF \<Rightarrow> ''unexpected EOF''
      | SyntaxError \<Rightarrow> ''invalid character''
      | UnmarshalTypeError \<Rightarrow> ''json: cannot unmarshal'')"

definition Decode :: "string \<Rightarrow> error + markUploadedRequest" where
  "Decode body =
     (case decodeFrom \<lparr>step = stateBeginValue, parseStack = [], raw = [], curKey = [], target = [],
                       typeError = False\<rparr> body of
        Inl e \<Rightarrow>
          Inl (OtherError (jsonErrorText (if e = ErrUnexpectedEOF \<and> list_all isSpace body then EOF else e)))
      | Inr reqBody \<Rightarrow> Inr reqBody)"

section \<open>Identifier reservation\<close>

text \<open>
  One pass through the body of the loop of \<^verbatim>\<open>reserveUniqueID\<close>: draw 12 random
  bytes, encode them, and try to insert the candidate on condition that the key does not
  exist. A failed insert is logged (both branches of the type assertion log the text of
  the error). The result is the candidate, the error of \<^verbatim>\<open>PutItem\<close> and the world.
\<close>

definition reserveAttempt :: "'db globals \<Rightarrow> 'db world \<Rightarrow> string \<times> error option \<times> 'db world" where
  "reserveAttempt g w =
     (case rand_Read 12 w of
        (randBytes, w1) \<Rightarrow>
          (let newId = EncodeToString randBytes;
               query = \<lparr>put_Item = [''id'' \<mapsto> \<lparr>S = Some newId\<rparr>],
                        put_TableName = tableName g,
                        put_ConditionExpression = Some ''attribute_not_exists(id)''\<rparr>
           in case callPutItem g query w1 of
                (Some err, w2) \<Rightarrow> (newId, Some err, log_Println (Error err) w2)
              | (None, w2) \<Rightarrow> (newId, None, w2)))"

text \<open>
  \<^verbatim>\<open>for i := 0; i <= 10; i++\<close>: every error takes the \<^verbatim>\<open>continue\<close>, a nil error
  returns the candidate; after the loop the last error is returned with the empty id.
\<close>

function reserveLoop ::
  "'db globals \<Rightarrow> nat \<Rightarrow> error option \<Rightarrow> 'db world \<Rightarrow> (string \<times> error option) \<times> 'db world" where
  "reserveLoop g i lastError w =
     (if i \<le> 10 then
        (case reserveAttempt g w of
           (newId, Some err, w') \<Rightarrow> reserveLoop g (i + 1) (Some err) w'
         | (newId, None, w') \<Rightarrow> ((newId, None), w'))
      else (([], lastError), w))"
  by pat_completeness auto
termination
  by (relation "measure (\<lambda>(g, i, lastError, w). 11 - i)") auto

definition reserveUniqueID :: "'db globals \<Rightarrow> 'db world \<Rightarrow> (string \<times> error option) \<times> 'db world" where
  "reserveUniqueID g w = reserveLoop g 0 None w"

section \<open>The handlers\<close>

definition checkMethod :: "ResponseWriter \<Rightarrow> Request \<Rightarrow> string list \<Rightarrow> bool \<times> ResponseWriter" where
  "checkMethod w r methods =
     (if list_ex (\<lambda>method. method = Method r) methods then (True, w)
      else (False, WriteHeader StatusMethodNotAllowed (HeaderSet ''Allow'' (Join methods '', '') w)))"

definition initAsset :: "'db globals \<Rightarrow> ResponseWriter \<Rightarrow> Request \<Rightarrow> 'db world \<Rightarrow> ResponseWriter \<times> 'db world" where
  "initAsset g w r wld =
     (case checkMethod w r [MethodPost] of
        (False, w1) \<Rightarrow> (w1, wld)
      | (True, w1) \<Rightarrow>
          (case reserveUniqueID g wld of
             ((assetID, Some err), wld1) \<Rightarrow> (WriteHeader StatusServiceUnavailable w1, wld1)
           | ((assetID, None), wld1) \<Rightarrow>
               (case PutObjectRequest (s3Svc g) \<lparr>Bucket = bucketName g, Key = assetID\<rparr> uploadTimeout of
                  Inl err \<Rightarrow> (WriteHeader StatusInternalServerError w1, log_Println (Error err) wld1)
                | Inr url \<Rightarrow> (Write (InitAssetJSON \<lparr>UploadURL = url, ID = assetID\<rparr>) w1, wld1))))"

text \<open>
  Lines 167 to 181 of main.go, the timeout parameter: the duration to sign with, or the
  response of the early return. The product \<open>timeoutSec * Second\<close> is a product of
  64-bit integers.
\<close>

definition parseTimeout :: "ResponseWriter \<Rightarrow> Request \<Rightarrow> ResponseWriter + Duration" where
  "parseTimeout w r =
     (let timeoutStr = Get (URL_Query r) ''timeout''
      in if timeoutStr \<noteq> [] then
           (case Atoi timeoutStr of
              Inl err \<Rightarrow> Inl (http_Error w ''Invalid argument for timeout, must be integer.'' StatusBadRequest)
            | Inr timeoutSec \<Rightarrow>
                (let timeout = timeoutSec * Second
                 in if timeout <s Second \<or> maxDownloadTimeout <s timeout
                    then Inl (http_Error w ''Please use a more reasonable timeout.'' StatusBadRequest)
                    else Inr timeout))
         else Inr defaultDownloadTimeout)"

text \<open>Lines 183 to 201 of main.go: sign and return a download url.\<close>

definition signDownload ::
  "'db globals \<Rightarrow> ResponseWriter \<Rightarrow> string \<Rightarrow> Duration \<Rightarrow> 'db world \<Rightarrow> ResponseWriter \<times> 'db world" where
  "signDownload g w assetID timeout wld =
     (case GetObjectRequest (s3Svc g) \<lparr>Bucket = bucketName g, Key = assetID\<rparr> timeout of
        Inl err \<Rightarrow> (WriteHeader StatusInternalServerError w, log_Println (Error err) wld)
      | Inr url \<Rightarrow> (Write (AssetURLJSON \<lparr>DownloadURL = url\<rparr>) w, wld))"

text \<open>
  \<^verbatim>\<open>*status.S\<close> dereferences a pointer; on a status attribute that is not a string
  the handler panics.
\<close>

datatype panic = NilPointerDereference

definition notFoundMessage :: "string \<Rightarrow> string" where
  "notFoundMessage assetID = ''Asset id '' @ [CHR 0x27] @ assetID @ [CHR 0x27] @ '' not found.''"

definition notCompleteMessage :: "string \<Rightarrow> string" where
  "notCompleteMessage assetID =
     ''Asset id '' @ [CHR 0x27] @ assetID @ [CHR 0x27] @ '' found but upload is not complete.''"

definition handleAssetURLRequest ::
  "'db globals \<Rightarrow> ResponseWriter \<Rightarrow> Request \<Rightarrow> string \<Rightarrow> 'db world \<Rightarrow> panic + ResponseWriter \<times> 'db world" where
  "handleAssetURLRequest g w r assetID wld =
     (let query = \<lparr>get_Key = [''id'' \<mapsto> \<lparr>S = Some assetID\<rparr>],
                   get_TableName = tableName g,
                   get_ConsistentRead = True\<rparr>
      in case callGetItem g query wld of
           (Inl err, wld1) \<Rightarrow>
             Inr (http_Error w ''Unexpected internal error.'' StatusInternalServerError,
                  log_Println (Error err) wld1)
         | (Inr result, wld1) \<Rightarrow>
             (case out_Item result ''id'' of
                None \<Rightarrow> Inr (http_Error w (notFoundMessage assetID) StatusNotFound, wld1)
              | Some _ \<Rightarrow>
                  (case out_Item result ''status'' of
                     None \<Rightarrow> Inr (http_Error w (notCompleteMessage assetID) StatusAccepted, wld1)
                   | Some status \<Rightarrow>
                       (case S status of
                          None \<Rightarrow> Inl NilPointerDereference
                        | Some s \<Rightarrow>
                            if s \<noteq> assetStatusUploaded
                            then Inr (http_Error w (notCompleteMessage assetID) StatusAccepted, wld1)
                            else (case parseTimeout w r of
                                    Inl w1 \<Rightarrow> Inr (w1, wld1)
                                  | Inr timeout \<Rightarrow> Inr (signDownload g w assetID timeout wld1))))))"

text \<open>
  \<open>decode\<close> is \<^verbatim>\<open>json.NewDecoder(r.Body).Decode(&reqBody)\<close> as a function of the
  body: the error, or the decoded struct.
\<close>

definition handleMarkUploadedRequest ::
  "'db globals \<Rightarrow> (string \<Rightarrow> error + markUploadedRequest) \<Rightarrow> ResponseWriter \<Rightarrow> Request \<Rightarrow> string
     \<Rightarrow> 'db world \<Rightarrow> ResponseWriter \<times> 'db world" where
  "handleMarkUploadedRequest g decode w r assetID wld =
     (case decode (Body r) of
        Inl err \<Rightarrow> (http_Error w (''Invalid JSON payload: '' @ Error err) StatusBadRequest, wld)
      | Inr reqBody \<Rightarrow>
          if Status reqBody \<noteq> assetStatusUploaded
          then (http_Error w
                  (''Invalid value for key Status. Expecting '' @ [CHR 0x27] @ assetStatusUploaded
                     @ [CHR 0x27] @ '', got: '' @ [CHR 0x27] @ Status reqBody @ [CHR 0x27])
                  StatusBadRequest, wld)
          else
            (let query = \<lparr>put_Item = [''id'' \<mapsto> \<lparr>S = Some assetID\<rparr>,
                                      ''status'' \<mapsto> \<lparr>S = Some assetStatusUploaded\<rparr>],
                          put_TableName = tableName g,
                          put_ConditionExpression = Some ''attribute_exists(id)''\<rparr>
             in case callPutItem g query wld of
                  (Some (AwsError code message), wld1) \<Rightarrow>
                    if code = ErrCodeConditionalCheckFailedException
                    then (http_Error w (notFoundMessage assetID) StatusNotFound, wld1)
                    else (http_Error w ''Unexpected internal error.'' StatusInternalServerError,
                          log_Println (Error (AwsError code message)) wld1)
                | (Some (OtherError text), wld1) \<Rightarrow>
                    (http_Error w ''Unexpected internal error.'' StatusInternalServerError,
                     log_Println (Error (OtherError text)) wld1)
                | (None, wld1) \<Rightarrow> (w, wld1)))"

definition manageAsset ::
  "'db globals \<Rightarrow> (string \<Rightarrow> error + markUploadedRequest) \<Rightarrow> ResponseWriter \<Rightarrow> Request
     \<Rightarrow> 'db world \<Rightarrow> panic + ResponseWriter \<times> 'db world" where
  "manageAsset g decode w r wld =
     (case checkMethod w r [MethodGet, MethodPut] of
        (False, w1) \<Rightarrow> Inr (w1, wld)
      | (True, w1) \<Rightarrow>
          (let assetID = TrimPrefix (URL_Path r) ''/asset/''
           in if Method r = MethodGet then handleAssetURLRequest g w1 r assetID wld
              else if Method r = MethodPut then Inr (handleMarkUploadedRequest g decode w1 r assetID wld)
              else Inr (w1, wld)))"

section \<open>Vocabulary of the claims\<close>

text \<open>
  \<open>failedAttempts g n w\<close>: the next \<open>n\<close> passes through the loop body, started in
  world \<open>w\<close>, all fail; the result is their errors in order and the world after them.
  \<open>None\<close> when one of them succeeds.
\<close>

fun failedAttempts :: "'db globals \<Rightarrow> nat \<Rightarrow> 'db world \<Rightarrow> (error list \<times> 'db world) option" where
  "failedAttempts g 0 w = Some ([], w)"
| "failedAttempts g (Suc n) w =
     (case reserveAttempt g w of
        (newId, Some err, w') \<Rightarrow>
          (case failedAttempts g n w' of
             None \<Rightarrow> None
           | Some (errs, w'') \<Rightarrow> Some (err # errs, w''))
      | (newId, None, w') \<Rightarrow> None)"

text \<open>The results of the conditional inserts recorded in a list of events, in order.\<close>

fun putResults :: "event list \<Rightarrow> error option list" where
  "putResults [] = []"
| "putResults (PutItemCall q err # es) = err # putResults es"
| "putResults (GetItemCall q # es) = putResults es"
| "putResults (Logged s # es) = putResults es"

text \<open>
  The response a handler leaves behind, as the client sees it: the status and what was
  written. \<open>None\<close> when the handler panicked.
\<close>

definition responseOf :: "panic + ResponseWriter \<times> 'db world \<Rightarrow> (nat \<times> written list) option" where
  "responseOf outcome =
     (case outcome of Inl p \<Rightarrow> None | Inr (w, wld) \<Rightarrow> Some (ResultStatus w, Output w))"

section \<open>A model of the record store\<close>

text \<open>
  Modelled from the spec: the record store is an external collaborator (DynamoDB), not
  in src/. Section 6 of the specification gives its contract:
  \<^verbatim>\<open>getItem(table, key, {consistent: true})\<close> returns the record or its absence and
  \<^verbatim>\<open>putItem(table, record, {conditionExpression})\<close> returns ok, conditionFailed or an
  error, with the conditions "key does not exist" and "key exists". A put that passes
  its condition replaces the whole record under the key. Failures of the transport
  (network, throttling, permission) are a script: every call consumes one entry, and an
  entry \<open>Some e\<close> makes that call fail with \<open>e\<close> and leaves the records alone.
\<close>

record table =
  items :: "string \<rightharpoonup> Item"
  faults :: "error option list"

definition keyOf :: "Item \<Rightarrow> string option" where
  "keyOf it = (case it ''id'' of None \<Rightarrow> None | Some a \<Rightarrow> S a)"

definition conditionHolds :: "string option \<Rightarrow> bool \<Rightarrow> bool option" where
  "conditionHolds c present =
     (case c of
        None \<Rightarrow> Some True
      | Some e \<Rightarrow>
          if e = ''attribute_not_exists(id)'' then Some (\<not> present)
          else if e = ''attribute_exists(id)'' then Some present
          else None)"

definition tablePutItem :: "PutItemInput \<Rightarrow> table \<Rightarrow> error option \<times> table" where
  "tablePutItem q t =
     (case faults t of
        Some e # fs \<Rightarrow> (Some e, t\<lparr>faults := fs\<rparr>)
      | _ \<Rightarrow>
          (let t1 = t\<lparr>faults := tl (faults t)\<rparr>
           in case keyOf (put_Item q) of
                None \<Rightarrow> (Some (AwsError ''ValidationException'' ''missing key''), t1)
              | Some k \<Rightarrow>
                  (case conditionHolds (put_ConditionExpression q) (items t k \<noteq> None) of
                     None \<Rightarrow> (Some (AwsError ''ValidationException'' ''unsupported condition''), t1)
                   | Some False \<Rightarrow>
                       (Some (AwsError ErrCodeConditionalCheckFailedException
                                ''The conditional request failed''), t1)
                   | Some True \<Rightarrow> (None, t1\<lparr>items := (items t)(k \<mapsto> put_Item q)\<rparr>))))"

definition tableGetItem :: "GetItemInput \<Rightarrow> table \<Rightarrow> (error + GetItemOutput) \<times> table" where
  "tableGetItem q t =
     (case faults t of
        Some e # fs \<Rightarrow> (Inl e, t\<lparr>faults := fs\<rparr>)
      | _ \<Rightarrow>
          (let t1 = t\<lparr>faults := tl (faults t)\<rparr>
           in case keyOf (get_Key q) of
                None \<Rightarrow> (Inl (AwsError ''ValidationException'' ''missing key''), t1)
              | Some k \<Rightarrow>
                  (case items t k of
                     None \<Rightarrow> (Inr \<lparr>out_Item = Map.empty\<rparr>, t1)
                   | Some it \<Rightarrow> (Inr \<lparr>out_Item = it\<rparr>, t1))))"

definition tableDB :: "table DynamoDBAPI" where
  "tableDB = \<lparr>PutItem = tablePutItem, GetItem = tableGetItem\<rparr>"

section \<open>Fixtures for the concrete runs\<close>

text \<open>
  A signer that always succeeds and shows the validity it was asked for, in seconds, in
  the url.
\<close>

fun decimal :: "nat \<Rightarrow> string" where
  "decimal n =
     (if n < 10 then [''0123456789'' ! n] else decimal (n div 10) @ [''0123456789'' ! (n mod 10)])"

definition testS3 :: S3API where
  "testS3 =
     \<lparr>PutObjectRequest = (\<lambda>input d. Inr (''https://s3.test/'' @ Bucket input @ ''/'' @ Key input
          @ ''?verb=PUT&expires='' @ decimal (unat d div 1000000000))),
      GetObjectRequest = (\<lambda>input d. Inr (''https://s3.test/'' @ Bucket input @ ''/'' @ Key input
          @ ''?verb=GET&expires='' @ decimal (unat d div 1000000000)))\<rparr>"

definition testGlobals :: "table globals" where
  "testGlobals = \<lparr>bucketName = ''1brown2green'', tableName = ''assets'', dbSvc = tableDB, s3Svc = testS3\<rparr>"

text \<open>A world whose random source produces the bytes 0, 1, 2, ...\<close>

definition testWorld :: "table \<Rightarrow> table world" where
  "testWorld t = \<lparr>store = t, randSrc = (\<lambda>i. of_nat i), events = []\<rparr>"

text \<open>
  A signer that always fails.
\<close>

definition brokenS3 :: S3API where
  "brokenS3 =
     \<lparr>PutObjectRequest = (\<lambda>input d. Inl (OtherError ''signing failed'')),
      GetObjectRequest = (\<lambda>input d. Inl (OtherError ''signing failed''))\<rparr>"

definition brokenSignerGlobals :: "table globals" where
  "brokenSignerGlobals = testGlobals\<lparr>s3Svc := brokenS3\<rparr>"

text \<open>The body \<^verbatim>\<open>{"Status":"text"}\<close> of a request, and a text between quotes.\<close>

definition statusBody :: "string \<Rightarrow> string" where
  "statusBody text =
     ''{'' @ [CHR 0x22] @ ''Status'' @ [CHR 0x22] @ '':'' @ [CHR 0x22] @ text @ [CHR 0x22] @ ''}''"

definition quoted :: "string \<Rightarrow> string" where
  "quoted text = [CHR 0x22] @ text @ [CHR 0x22]"

section \<open>Lemmas about the reservation loop\<close>

declare reserveLoop.simps [simp del]

lemma putResults_append: "putResults (xs @ ys) = putResults xs @ putResults ys"
  by (induction xs rule: putResults.induct) simp_all

lemma reserveAttempt_events:
  "reserveAttempt g w = (newId, err, w') \<Longrightarrow> putResults (events w') = putResults (events w) @ [err]"
  by (auto simp: reserveAttempt_def rand_Read_def callPutItem_def log_Println_def Let_def
        putResults_append split: prod.splits option.splits)

lemma reserveAttempt_claims:
  "reserveAttempt g w = (newId, None, w') \<Longrightarrow>
   last (events w') =
     PutItemCall \<lparr>put_Item = [''id'' \<mapsto> \<lparr>S = Some newId\<rparr>], put_TableName = tableName g,
                  put_ConditionExpression = Some ''attribute_not_exists(id)''\<rparr> None"
  by (auto simp: reserveAttempt_def rand_Read_def callPutItem_def log_Println_def Let_def
        split: prod.splits option.splits)

lemma EncodeToString_12: "length bs = 12 \<Longrightarrow> length (EncodeToString bs) = 16"
proof -
  assume "length bs = 12"
  then obtain b0 b1 b2 b3 b4 b5 b6 b7 b8 b9 b10 b11
    where "bs = [b0, b1, b2, b3, b4, b5, b6, b7, b8, b9, b10, b11]"
    by (auto simp: length_Suc_conv eval_nat_numeral)
  then show ?thesis by (simp add: Let_def)
qed

lemma reserveAttempt_id:
  "reserveAttempt g w = (newId, err, w') \<Longrightarrow> length newId = 16"
  by (auto simp: reserveAttempt_def rand_Read_def callPutItem_def log_Println_def Let_def
        EncodeToString_12 split: prod.splits option.splits)

lemma reserveLoop_exhausted:
  "failedAttempts g n w = Some (errs, w') \<Longrightarrow> i + n = 11 \<Longrightarrow>
   reserveLoop g i lastError w = (([], if errs = [] then lastError else Some (last errs)), w')"
proof (induction n arbitrary: i lastError w errs)
  case 0
  then show ?case by (simp add: reserveLoop.simps)
next
  case (Suc n)
  from Suc.prems(1) obtain newId err w1 errs1 where
    att: "reserveAttempt g w = (newId, Some err, w1)" and
    rest: "failedAttempts g n w1 = Some (errs1, w')" and
    errs: "errs = err # errs1"
    by (auto split: prod.splits option.splits)
  from Suc.prems(2) have i: "i \<le> 10" "(i + 1) + n = 11" by simp_all
  have "reserveLoop g i lastError w = reserveLoop g (i + 1) (Some err) w1"
    using i(1) att by (subst reserveLoop.simps) simp
  also have "\<dots> = (([], if errs1 = [] then Some err else Some (last errs1)), w')"
    by (rule Suc.IH [OF rest i(2)])
  finally show ?case using errs by simp
qed

lemma reserveLoop_success:
  "failedAttempts g k w = Some (errs, w1) \<Longrightarrow> reserveAttempt g w1 = (newId, None, w2) \<Longrightarrow>
   i + k \<le> 10 \<Longrightarrow> reserveLoop g i lastError w = ((newId, None), w2)"
proof (induction k arbitrary: i lastError w errs)
  case 0
  then show ?case by (subst reserveLoop.simps) simp
next
  case (Suc k)
  from Suc.prems(1) obtain newId' err w' errs1 where
    att: "reserveAttempt g w = (newId', Some err, w')" and
    rest: "failedAttempts g k w' = Some (errs1, w1)"
    by (auto split: prod.splits option.splits)
  from Suc.prems(3) have i: "i \<le> 10" "(i + 1) + k \<le> 10" by simp_all
  have "reserveLoop g i lastError w = reserveLoop g (i + 1) (Some err) w'"
    using i(1) att by (subst reserveLoop.simps) simp
  also have "\<dots> = ((newId, None), w2)"
    by (rule Suc.IH [OF rest Suc.prems(2) i(2)])
  finally show ?case .
qed

lemma failedAttempts_None:
  "failedAttempts g n w = None \<Longrightarrow>
   \<exists>k errs w1 newId w2. k < n \<and> failedAttempts g k w = Some (errs, w1)
      \<and> reserveAttempt g w1 = (newId, None, w2)"
proof (induction n arbitrary: w)
  case 0
  then show ?case by simp
next
  case (Suc n)
  obtain newId err w' where att: "reserveAttempt g w = (newId, err, w')"
    by (cases "reserveAttempt g w") auto
  show ?case
  proof (cases err)
    case None
    with att have "failedAttempts g 0 w = Some ([], w) \<and> reserveAttempt g w = (newId, None, w')"
      by simp
    then show ?thesis by blast
  next
    case (Some e)
    with att Suc.prems have "failedAttempts g n w' = None"
      by (auto split: option.splits)
    from Suc.IH [OF this] obtain k errs w1 newId1 w2 where
      k: "k < n" "failedAttempts g k w' = Some (errs, w1)" "reserveAttempt g w1 = (newId1, None, w2)"
      by blast
    from k(2) att Some have "failedAttempts g (Suc k) w = Some (e # errs, w1)" by simp
    with k(1) k(3) show ?thesis by (metis Suc_less_eq)
  qed
qed

lemma failedAttempts_events:
  "failedAttempts g n w = Some (errs, w') \<Longrightarrow>
   length errs = n \<and> putResults (events w') = putResults (events w) @ map Some errs"
proof (induction n arbitrary: w errs)
  case 0
  then show ?case by simp
next
  case (Suc n)
  from Suc.prems obtain newId err w1 errs1 where
    att: "reserveAttempt g w = (newId, Some err, w1)" and
    rest: "failedAttempts g n w1 = Some (errs1, w')" and
    errs: "errs = err # errs1"
    by (auto split: prod.splits option.splits)
  from Suc.IH [OF rest] reserveAttempt_events [OF att] errs show ?case by simp
qed

lemma reserveLoop_extends:
  "\<exists>more. putResults (events (snd (reserveLoop g i lastError w))) = putResults (events w) @ more"
proof (induction g i lastError w rule: reserveLoop.induct)
  case (1 g i lastError w)
  show ?case
  proof (cases "i \<le> 10")
    case False
    then show ?thesis by (subst reserveLoop.simps) simp
  next
    case True
    obtain newId err w' where att: "reserveAttempt g w = (newId, err, w')"
      by (cases "reserveAttempt g w") auto
    show ?thesis
    proof (cases err)
      case None
      with att True reserveAttempt_events [OF att] show ?thesis
        by (subst reserveLoop.simps) simp
    next
      case (Some e)
      from "1.IH" [OF True] att Some obtain more where
        "putResults (events (snd (reserveLoop g (i + 1) (Some e) w'))) = putResults (events w') @ more"
        by fastforce
      with att Some True reserveAttempt_events [OF att] show ?thesis
        by (subst reserveLoop.simps) simp
    qed
  qed
qed

subsection \<open>Concrete runs on the table store\<close>

lemma upt_12: "[0..<12] = [0, 1, 2, 3, 4, 5, 6, 7, 8, 9, 10, 11]"
  by (simp add: upt_rec)

lemma first_id: "EncodeToString (map (\<lambda>i. of_nat i) [0..<12]) = ''AAECAwQFBgcICQoL''"
  by (simp add: upt_12 Let_def encodeURL_def)

lemma second_id: "EncodeToString (map (\<lambda>i. word_of_nat i + 12) [0..<12]) = ''DA0ODxAREhMUFRYX''"
  by (simp add: upt_12 Let_def encodeURL_def)

lemmas run_defs = reserveAttempt_def rand_Read_def callPutItem_def log_Println_def
  testGlobals_def testWorld_def tableDB_def tablePutItem_def keyOf_def conditionHolds_def
  ErrCodeConditionalCheckFailedException_def Let_def

lemma faulty_attempt:
  "faults (store w) = Some e # fs \<Longrightarrow>
   \<exists>newId w1. reserveAttempt testGlobals w = (newId, Some e, w1) \<and> faults (store w1) = fs"
  by (simp add: run_defs)

lemma faulty_attempts:
  "faults (store w) = map Some es @ fs \<Longrightarrow>
   \<exists>w1. failedAttempts testGlobals (length es) w = Some (es, w1) \<and> faults (store w1) = fs"
proof (induction es arbitrary: w)
  case Nil
  then show ?case by simp
next
  case (Cons e es)
  from Cons.prems have "faults (store w) = Some e # (map Some es @ fs)" by simp
  from faulty_attempt [OF this] obtain newId w1 where
    att: "reserveAttempt testGlobals w = (newId, Some e, w1)" and f: "faults (store w1) = map Some es @ fs"
    by blast
  from Cons.IH [OF f] obtain w2 where
    "failedAttempts testGlobals (length es) w1 = Some (es, w2)" "faults (store w2) = fs"
    by blast
  with att show ?case by simp
qed

text \<open>
  Claim C2. Reservation makes at least one and at most 11 conditional inserts. If the
  11 attempts all fail, it returns the empty id and the error of the last attempt, after
  exactly those 11 inserts. If the attempt after \<open>k \<le> 10\<close> failures succeeds, it
  returns the id that this attempt inserted (16 characters) and no error.
\<close>

theorem reserve_bounded_retry:
  "(failedAttempts g 11 w = Some (errs, w') \<longrightarrow>
      reserveUniqueID g w = (([], Some (last errs)), w') \<and> length errs = 11
      \<and> putResults (events w') = putResults (events w) @ map Some errs)
   \<and> (k \<le> 10 \<and> failedAttempts g k w = Some (errs, w1) \<and> reserveAttempt g w1 = (newId, None, w2) \<longrightarrow>
      reserveUniqueID g w = ((newId, None), w2) \<and> length newId = 16
      \<and> putResults (events w2) = putResults (events w) @ map Some errs @ [None]
      \<and> last (events w2) =
          PutItemCall \<lparr>put_Item = [''id'' \<mapsto> \<lparr>S = Some newId\<rparr>], put_TableName = tableName g,
                       put_ConditionExpression = Some ''attribute_not_exists(id)''\<rparr> None)
   \<and> (\<exists>rs. putResults (events (snd (reserveUniqueID g w))) = putResults (events w) @ rs
          \<and> 1 \<le> length rs \<and> length rs \<le> 11)"
proof (intro conjI impI)
  assume a: "failedAttempts g 11 w = Some (errs, w')"
  from failedAttempts_events [OF a] show len: "length errs = 11"
    and "putResults (events w') = putResults (events w) @ map Some errs" by simp_all
  from len have "errs \<noteq> []" by auto
  with reserveLoop_exhausted [OF a, of 0 None]
  show "reserveUniqueID g w = (([], Some (last errs)), w')"
    by (simp add: reserveUniqueID_def)
next
  assume b: "k \<le> 10 \<and> failedAttempts g k w = Some (errs, w1) \<and> reserveAttempt g w1 = (newId, None, w2)"
  then have k: "0 + k \<le> 10" and f: "failedAttempts g k w = Some (errs, w1)"
    and s: "reserveAttempt g w1 = (newId, None, w2)" by simp_all
  from reserveLoop_success [OF f s k] show "reserveUniqueID g w = ((newId, None), w2)"
    by (simp add: reserveUniqueID_def)
  from reserveAttempt_id [OF s] show "length newId = 16" .
  from failedAttempts_events [OF f] reserveAttempt_events [OF s]
  show "putResults (events w2) = putResults (events w) @ map Some errs @ [None]" by simp
  from reserveAttempt_claims [OF s]
  show "last (events w2) =
          PutItemCall \<lparr>put_Item = [''id'' \<mapsto> \<lparr>S = Some newId\<rparr>], put_TableName = tableName g,
                       put_ConditionExpression = Some ''attribute_not_exists(id)''\<rparr> None" .
next
  show "\<exists>rs. putResults (events (snd (reserveUniqueID g w))) = putResults (events w) @ rs
          \<and> 1 \<le> length rs \<and> length rs \<le> 11"
  proof (cases "failedAttempts g 11 w")
    case (Some p)
    obtain errs' w'' where p: "p = (errs', w'')" by (cases p)
    with Some have f: "failedAttempts g 11 w = Some (errs', w'')" by simp
    from failedAttempts_events [OF f] have len: "length errs' = 11"
      and ev: "putResults (events w'') = putResults (events w) @ map Some errs'" by simp_all
    from reserveLoop_exhausted [OF f, of 0 None]
    have "snd (reserveUniqueID g w) = w''" by (simp add: reserveUniqueID_def)
    with len ev show ?thesis by simp
  next
    case None
    from failedAttempts_None [OF None] obtain j errs' w1' newId' w2' where
      j: "j < 11" and f: "failedAttempts g j w = Some (errs', w1')"
      and s: "reserveAttempt g w1' = (newId', None, w2')" by blast
    from j have "0 + j \<le> 10" by simp
    from reserveLoop_success [OF f s this, of None]
    have r: "snd (reserveUniqueID g w) = w2'" by (simp add: reserveUniqueID_def)
    from failedAttempts_events [OF f] reserveAttempt_events [OF s]
    have "putResults (events w2') = putResults (events w) @ (map Some errs' @ [None])"
      and "length (map Some errs' @ [None]) = j + 1" by simp_all
    with r j show ?thesis by (intro exI [of _ "map Some errs' @ [None]"]) simp
  qed
qed

text \<open>
  Two runs on the table store. With eleven scripted failures reservation returns the
  empty id and the last error. With the first candidate already taken, the first insert
  fails on its condition and the second candidate is returned.
\<close>

theorem reserve_bounded_retry_witness:
  "fst (reserveUniqueID testGlobals
          (testWorld \<lparr>items = Map.empty, faults = map Some (replicate 11 (OtherError ''foo''))\<rparr>))
     = ([], Some (OtherError ''foo''))
   \<and> fst (reserveUniqueID testGlobals
          (testWorld \<lparr>items = [''AAECAwQFBgcICQoL'' \<mapsto> [''id'' \<mapsto> \<lparr>S = Some ''AAECAwQFBgcICQoL''\<rparr>]],
                      faults = []\<rparr>))
     = (''DA0ODxAREhMUFRYX'', None)"
proof
  let ?w = "testWorld \<lparr>items = Map.empty, faults = map Some (replicate 11 (OtherError ''foo''))\<rparr>"
  have "faults (store ?w) = map Some (replicate 11 (OtherError ''foo'')) @ []"
    by (simp add: testWorld_def)
  from faulty_attempts [OF this] obtain w1 where
    h: "failedAttempts testGlobals 11 ?w = Some (replicate 11 (OtherError ''foo''), w1)"
    by auto
  from reserve_bounded_retry [THEN conjunct1, rule_format, OF h]
  show "fst (reserveUniqueID testGlobals ?w) = ([], Some (OtherError ''foo''))"
    by simp
next
  let ?w = "testWorld \<lparr>items = [''AAECAwQFBgcICQoL'' \<mapsto> [''id'' \<mapsto> \<lparr>S = Some ''AAECAwQFBgcICQoL''\<rparr>]],
                       faults = []\<rparr>"
  have "\<exists>errs w1 w2. failedAttempts testGlobals 1 ?w = Some (errs, w1)
          \<and> reserveAttempt testGlobals w1 = (''DA0ODxAREhMUFRYX'', None, w2)"
    by (simp add: run_defs first_id second_id)
  then obtain errs w1 w2 where
    h: "1 \<le> (10::nat) \<and> failedAttempts testGlobals 1 ?w = Some (errs, w1)
          \<and> reserveAttempt testGlobals w1 = (''DA0ODxAREhMUFRYX'', None, w2)"
    by auto
  from reserve_bounded_retry [THEN conjunct2, THEN conjunct1, rule_format, OF h]
  show "fst (reserveUniqueID testGlobals ?w) = (''DA0ODxAREhMUFRYX'', None)"
    by simp
qed

text \<open>
  Claim C1, the failing inputs. First run: the first insert fails with a throttling
  error, which is not a collision; reservation does not stop there, it makes a second
  insert and returns the second id with no error. Second run: the store answers every
  insert with the plain error \<open>foo\<close>, as the failing client of main_test.go does;
  reservation makes eleven inserts, not one, before it returns the error.
\<close>

theorem reserve_retries_other_failures:
  "fst (reserveUniqueID testGlobals
          (testWorld \<lparr>items = Map.empty,
                      faults = [Some (AwsError ''ProvisionedThroughputExceededException'' ''throttled'')]\<rparr>))
     = (''DA0ODxAREhMUFRYX'', None)
   \<and> putResults (events (snd (reserveUniqueID testGlobals
          (testWorld \<lparr>items = Map.empty,
                      faults = [Some (AwsError ''ProvisionedThroughputExceededException'' ''throttled'')]\<rparr>))))
     = [Some (AwsError ''ProvisionedThroughputExceededException'' ''throttled''), None]
   \<and> fst (reserveUniqueID testGlobals
          (testWorld \<lparr>items = Map.empty, faults = map Some (replicate 11 (OtherError ''foo''))\<rparr>))
     = ([], Some (OtherError ''foo''))
   \<and> putResults (events (snd (reserveUniqueID testGlobals
          (testWorld \<lparr>items = Map.empty, faults = map Some (replicate 11 (OtherError ''foo''))\<rparr>))))
     = replicate 11 (Some (OtherError ''foo''))"
proof -
  let ?e = "AwsError ''ProvisionedThroughputExceededException'' ''throttled''"
  let ?w = "testWorld \<lparr>items = Map.empty, faults = [Some ?e]\<rparr>"
  have "\<exists>w1 w2. failedAttempts testGlobals 1 ?w = Some ([?e], w1)
          \<and> reserveAttempt testGlobals w1 = (''DA0ODxAREhMUFRYX'', None, w2)"
    by (simp add: run_defs first_id second_id)
  then obtain w1 w2 where
    f: "failedAttempts testGlobals 1 ?w = Some ([?e], w1)" and
    s: "reserveAttempt testGlobals w1 = (''DA0ODxAREhMUFRYX'', None, w2)"
    by auto
  have r: "reserveUniqueID testGlobals ?w = ((''DA0ODxAREhMUFRYX'', None), w2)"
    using reserveLoop_success [OF f s, of 0 None] by (simp add: reserveUniqueID_def)
  have "putResults (events ?w) = []" by (simp add: testWorld_def)
  with failedAttempts_events [OF f] reserveAttempt_events [OF s]
  have "putResults (events w2) = [Some ?e, None]" by simp
  with r have first: "fst (reserveUniqueID testGlobals ?w) = (''DA0ODxAREhMUFRYX'', None)
      \<and> putResults (events (snd (reserveUniqueID testGlobals ?w))) = [Some ?e, None]"
    by simp
  let ?x = "OtherError ''foo''"
  let ?v = "testWorld \<lparr>items = Map.empty, faults = map Some (replicate 11 ?x)\<rparr>"
  have ev0: "putResults (events ?v) = []" by (simp add: testWorld_def)
  have "faults (store ?v) = map Some (replicate 11 ?x) @ []" by (simp add: testWorld_def)
  from faulty_attempts [OF this] obtain v1 where
    g: "failedAttempts testGlobals 11 ?v = Some (replicate 11 ?x, v1)" by auto
  from reserveLoop_exhausted [OF g, of 0 None]
  have q: "reserveUniqueID testGlobals ?v = (([], Some ?x), v1)"
    by (simp add: reserveUniqueID_def)
  from failedAttempts_events [OF g]
  have "putResults (events v1) = putResults (events ?v) @ replicate 11 (Some ?x)" by simp
  then have "putResults (events v1) = replicate 11 (Some ?x)" by (simp only: ev0 append_Nil)
  with q have second: "fst (reserveUniqueID testGlobals ?v) = ([], Some ?x)
      \<and> putResults (events (snd (reserveUniqueID testGlobals ?v))) = replicate 11 (Some ?x)"
    by simp
  from first second show ?thesis by blast
qed

text \<open>
  The same for every store and every kind of error: a first insert that fails is
  followed by a second insert, and reservation returns an error only after 11 failed
  inserts in a row.
\<close>

lemma reserveUniqueID_retries_every_failure:
  "(reserveAttempt g w = (newId, Some e, w1) \<longrightarrow>
      (\<exists>r more. putResults (events (snd (reserveUniqueID g w)))
                  = putResults (events w) @ Some e # r # more))
   \<and> (reserveUniqueID g w = ((ident, Some err), w') \<longrightarrow>
      ident = [] \<and> (\<exists>errs. failedAttempts g 11 w = Some (errs, w') \<and> length errs = 11
         \<and> err = last errs \<and> putResults (events w') = putResults (events w) @ map Some errs))"
proof (intro conjI impI)
  assume att: "reserveAttempt g w = (newId, Some e, w1)"
  obtain id2 r w2 where att2: "reserveAttempt g w1 = (id2, r, w2)"
    by (cases "reserveAttempt g w1") auto
  have step: "reserveUniqueID g w = reserveLoop g 1 (Some e) w1"
    using att by (simp add: reserveUniqueID_def) (subst reserveLoop.simps, simp)
  have ev1: "putResults (events w1) = putResults (events w) @ [Some e]"
    by (rule reserveAttempt_events [OF att])
  have ev2: "putResults (events w2) = putResults (events w1) @ [r]"
    by (rule reserveAttempt_events [OF att2])
  show "\<exists>r more. putResults (events (snd (reserveUniqueID g w)))
                  = putResults (events w) @ Some e # r # more"
  proof (cases r)
    case None
    with att2 have "reserveLoop g 1 (Some e) w1 = ((id2, None), w2)"
      by (subst reserveLoop.simps) simp
    with step ev1 ev2 show ?thesis by simp
  next
    case (Some e2)
    with att2 have "reserveLoop g 1 (Some e) w1 = reserveLoop g (1 + 1) (Some e2) w2"
      by (subst reserveLoop.simps) simp
    moreover from reserveLoop_extends [of g "1 + 1" "Some e2" w2] obtain more where
      "putResults (events (snd (reserveLoop g (1 + 1) (Some e2) w2))) = putResults (events w2) @ more"
      by blast
    ultimately show ?thesis using step ev1 ev2 by simp
  qed
next
  assume res: "reserveUniqueID g w = ((ident, Some err), w')"
  have ex: "\<exists>errs w''. failedAttempts g 11 w = Some (errs, w'')"
  proof (rule ccontr)
    assume "\<not> ?thesis"
    then have "failedAttempts g 11 w = None" by (cases "failedAttempts g 11 w") auto
    from failedAttempts_None [OF this] obtain k errs w1 newId w2 where
      k: "k < 11" and f: "failedAttempts g k w = Some (errs, w1)"
      and s: "reserveAttempt g w1 = (newId, None, w2)" by blast
    from k have "0 + k \<le> 10" by simp
    from reserveLoop_success [OF f s this, of None] res show False
      by (simp add: reserveUniqueID_def)
  qed
  then obtain errs w'' where f: "failedAttempts g 11 w = Some (errs, w'')" by blast
  from failedAttempts_events [OF f] have len: "length errs = 11"
    and ev: "putResults (events w'') = putResults (events w) @ map Some errs" by simp_all
  from len have ne: "errs \<noteq> []" by auto
  from reserveLoop_exhausted [OF f, of 0 None] ne
  have "reserveUniqueID g w = (([], Some (last errs)), w'')" by (simp add: reserveUniqueID_def)
  with res have eqs: "ident = []" "err = last errs" "w' = w''" by simp_all
  show "ident = []" by (rule eqs(1))
  from f len ev eqs
  show "\<exists>errs. failedAttempts g 11 w = Some (errs, w') \<and> length errs = 11
         \<and> err = last errs \<and> putResults (events w') = putResults (events w) @ map Some errs"
    by blast
qed

section \<open>Lemmas about the response writer\<close>

lemma http_Error_fresh:
  "StatusCode w = None \<Longrightarrow>
   ResultStatus (http_Error w msg c) = c \<and> Output (http_Error w msg c) = Output w @ [Line msg]"
  by (simp add: http_Error_def Write_def WriteHeader_def HeaderSet_def ResultStatus_def Let_def)

lemma WriteHeader_fresh:
  "StatusCode w = None \<Longrightarrow> WriteHeader c w = w\<lparr>StatusCode := Some c\<rparr>"
  by (simp add: WriteHeader_def)

lemma Write_fresh:
  "StatusCode w = None \<Longrightarrow> Write x w = w\<lparr>StatusCode := Some StatusOK, Output := Output w @ [x]\<rparr>"
  by (simp add: Write_def WriteHeader_def Let_def)

lemma ResultStatus_fresh: "StatusCode w = None \<Longrightarrow> ResultStatus w = 200"
  by (simp add: ResultStatus_def StatusOK_def)

lemmas status_defs = StatusOK_def StatusAccepted_def StatusBadRequest_def StatusNotFound_def
  StatusMethodNotAllowed_def StatusInternalServerError_def StatusServiceUnavailable_def

lemmas method_defs = MethodGet_def MethodPost_def MethodPut_def

section \<open>Lemmas about the decoder\<close>

lemmas json_defs = Decode_def beginValue_def beginString_def endValue_def beginKind_def
  endString_def pushParseState_def popParseState_def maxNestingDepth_def isSpace_def
  matchesStatus_def isLetter_def toUpper_def step0_def stepESign_def isDigit_def isDigit19_def
  isHex_def jsonErrorText_def statusBody_def quoted_def Let_def

lemma Decode_uploaded: "Decode (statusBody ''uploaded'') = Inr \<lparr>Status = ''uploaded''\<rparr>"
  by (simp add: json_defs)

text \<open>
  What the decoder answers on some bodies: bytes after the first value are not looked
  at; the key matches without regard to case, white space and other members are
  allowed; \<^verbatim>\<open>null\<close> leaves the struct as it is; a body that does not start a value, an
  empty body and a number under the key are errors.
\<close>

lemma Decode_examples:
  "Decode (statusBody ''uploaded'' @ ''garbage'') = Inr \<lparr>Status = ''uploaded''\<rparr>
   \<and> Decode (statusBody ''other'') = Inr \<lparr>Status = ''other''\<rparr>
   \<and> Decode (''{ '' @ quoted ''status'' @ '' : '' @ quoted ''uploaded'' @ '', '' @ quoted ''extra''
               @ '':[1,{}] }'') = Inr \<lparr>Status = ''uploaded''\<rparr>
   \<and> Decode ''null'' = Inr \<lparr>Status = []\<rparr>
   \<and> Decode (''invalidjson'' @ statusBody ''other'') = Inl (OtherError ''invalid character'')
   \<and> Decode [] = Inl (OtherError ''EOF'')
   \<and> Decode (''{'' @ quoted ''Status'' @ '':'' @ quoted ''uploaded'') = Inl (OtherError ''unexpected EOF'')
   \<and> Decode (''{'' @ quoted ''Status'' @ '':5}'') = Inl (OtherError ''json: cannot unmarshal'')"
  by (simp add: json_defs)

section \<open>Method check\<close>

text \<open>
  Claim C9. A request to \<^verbatim>\<open>/asset\<close> whose method is not POST, and a request to
  \<^verbatim>\<open>/asset/{id}\<close> whose method is neither GET nor PUT, gets status 405 with the
  header \<^verbatim>\<open>Allow\<close> set to the permitted methods (\<^verbatim>\<open>POST\<close>, respectively
  \<^verbatim>\<open>GET, PUT\<close>). Nothing else happens: no body is written and the world is returned
  as it was (no store call, no random draw, no log line).
\<close>

theorem method_not_allowed:
  assumes "StatusCode w = None"
  shows "(Method r \<noteq> ''POST'' \<longrightarrow>
            initAsset g w r wld
              = (w\<lparr>Header := (Header w)(''Allow'' \<mapsto> ''POST''), StatusCode := Some 405\<rparr>, wld))
       \<and> (Method r \<noteq> ''GET'' \<and> Method r \<noteq> ''PUT'' \<longrightarrow>
            manageAsset g decode w r wld
              = Inr (w\<lparr>Header := (Header w)(''Allow'' \<mapsto> ''GET, PUT''), StatusCode := Some 405\<rparr>, wld))"
  using assms
  by (simp add: initAsset_def manageAsset_def checkMethod_def Join_def HeaderSet_def
        WriteHeader_def method_defs status_defs)

theorem method_not_allowed_witness:
  "initAsset testGlobals NewRecorder
       \<lparr>Method = ''GET'', URL_Path = ''/asset'', URL_Query = Map.empty, Body = []\<rparr>
       (testWorld \<lparr>items = Map.empty, faults = []\<rparr>)
     = (\<lparr>Header = [''Allow'' \<mapsto> ''POST''], StatusCode = Some 405, Output = []\<rparr>,
        testWorld \<lparr>items = Map.empty, faults = []\<rparr>)
   \<and> manageAsset testGlobals Decode NewRecorder
       \<lparr>Method = ''POST'', URL_Path = ''/asset/none'', URL_Query = Map.empty, Body = []\<rparr>
       (testWorld \<lparr>items = Map.empty, faults = []\<rparr>)
     = Inr (\<lparr>Header = [''Allow'' \<mapsto> ''GET, PUT''], StatusCode = Some 405, Output = []\<rparr>,
        testWorld \<lparr>items = Map.empty, faults = []\<rparr>)"
proof -
  have fresh: "StatusCode NewRecorder = None" by (simp add: NewRecorder_def)
  let ?r1 = "\<lparr>Method = ''GET'', URL_Path = ''/asset'', URL_Query = Map.empty, Body = []\<rparr>"
  let ?r2 = "\<lparr>Method = ''POST'', URL_Path = ''/asset/none'', URL_Query = Map.empty, Body = []\<rparr>"
  let ?W = "testWorld \<lparr>items = Map.empty, faults = []\<rparr>"
  have m1: "Method ?r1 \<noteq> ''POST''" by simp
  have m2: "Method ?r2 \<noteq> ''GET'' \<and> Method ?r2 \<noteq> ''PUT''" by simp
  from method_not_allowed [where g = testGlobals and wld = "?W" and decode = Decode,
         OF fresh, THEN conjunct1, rule_format, OF m1]
       method_not_allowed [where g = testGlobals and wld = "?W" and decode = Decode,
         OF fresh, THEN conjunct2, rule_format, OF m2]
  show ?thesis by (simp add: NewRecorder_def)
qed

section \<open>Marking an asset uploaded\<close>

lemma markUploaded_accepted:
  assumes "decode (Body r) = Inr reqBody" and "Status reqBody = ''uploaded''"
    and "PutItem (dbSvc g)
           \<lparr>put_Item = [''id'' \<mapsto> \<lparr>S = Some assetID\<rparr>, ''status'' \<mapsto> \<lparr>S = Some ''uploaded''\<rparr>],
            put_TableName = tableName g,
            put_ConditionExpression = Some ''attribute_exists(id)''\<rparr> (store wld) = (res, d)"
  shows "handleMarkUploadedRequest g decode w r assetID wld =
     (let wld1 = wld\<lparr>store := d, events := events wld @
                   [PutItemCall \<lparr>put_Item = [''id'' \<mapsto> \<lparr>S = Some assetID\<rparr>,
                                              ''status'' \<mapsto> \<lparr>S = Some ''uploaded''\<rparr>],
                                 put_TableName = tableName g,
                                 put_ConditionExpression = Some ''attribute_exists(id)''\<rparr> res]\<rparr>
      in case res of
           None \<Rightarrow> (w, wld1)
         | Some e \<Rightarrow>
             if \<exists>message. e = AwsError ''ConditionalCheckFailedException'' message
             then (http_Error w (notFoundMessage assetID) 404, wld1)
             else (http_Error w ''Unexpected internal error.'' 500, log_Println (Error e) wld1))"
  using assms
  by (auto simp: handleMarkUploadedRequest_def assetStatusUploaded_def callPutItem_def Let_def
        ErrCodeConditionalCheckFailedException_def status_defs split: option.splits error.splits)

lemma tablePut_mark:
  "faults t = [] \<Longrightarrow>
   tablePutItem
     \<lparr>put_Item = [''id'' \<mapsto> \<lparr>S = Some k\<rparr>, ''status'' \<mapsto> \<lparr>S = Some ''uploaded''\<rparr>],
      put_TableName = n, put_ConditionExpression = Some ''attribute_exists(id)''\<rparr> t
   = (if items t k = None
      then (Some (AwsError ''ConditionalCheckFailedException'' ''The conditional request failed''), t)
      else (None, t\<lparr>items := (items t)(k \<mapsto> [''id'' \<mapsto> \<lparr>S = Some k\<rparr>,
                                               ''status'' \<mapsto> \<lparr>S = Some ''uploaded''\<rparr>])\<rparr>))"
  by (simp add: tablePutItem_def keyOf_def conditionHolds_def Let_def
        ErrCodeConditionalCheckFailedException_def)

text \<open>
  Claim C5. Once the body is accepted, the handler puts the record \<open>{id, status: uploaded}\<close>
  under the condition \<^verbatim>\<open>attribute_exists(id)\<close>. The response is 404 exactly when the
  store answers with the error code of a failed condition, 500 exactly when it answers
  with any other error, and 200 exactly when it answers without error.
\<close>

theorem mark_uploaded_store_outcomes:
  assumes "StatusCode w = None"
    and "decode (Body r) = Inr reqBody" and "Status reqBody = ''uploaded''"
    and "PutItem (dbSvc g)
           \<lparr>put_Item = [''id'' \<mapsto> \<lparr>S = Some assetID\<rparr>, ''status'' \<mapsto> \<lparr>S = Some ''uploaded''\<rparr>],
            put_TableName = tableName g,
            put_ConditionExpression = Some ''attribute_exists(id)''\<rparr> (store wld) = (res, d)"
  shows "(ResultStatus (fst (handleMarkUploadedRequest g decode w r assetID wld)) = 404
            \<longleftrightarrow> (\<exists>message. res = Some (AwsError ''ConditionalCheckFailedException'' message)))
       \<and> (ResultStatus (fst (handleMarkUploadedRequest g decode w r assetID wld)) = 500
            \<longleftrightarrow> res \<noteq> None
                \<and> (\<forall>message. res \<noteq> Some (AwsError ''ConditionalCheckFailedException'' message)))
       \<and> (ResultStatus (fst (handleMarkUploadedRequest g decode w r assetID wld)) = 200
            \<longleftrightarrow> res = None)
       \<and> store (snd (handleMarkUploadedRequest g decode w r assetID wld)) = d
       \<and> putResults (events (snd (handleMarkUploadedRequest g decode w r assetID wld)))
            = putResults (events wld) @ [res]"
proof (cases res)
  case None
  with markUploaded_accepted [where decode = decode and r = r and w = w, OF assms(2-4)] assms(1) show ?thesis
    by (simp add: Let_def ResultStatus_fresh putResults_append)
next
  case (Some e)
  show ?thesis
  proof (cases "\<exists>message. e = AwsError ''ConditionalCheckFailedException'' message")
    case True
    with Some markUploaded_accepted [where decode = decode and r = r and w = w, OF assms(2-4)] http_Error_fresh [OF assms(1)]
    show ?thesis by (auto simp: Let_def putResults_append)
  next
    case False
    with Some markUploaded_accepted [where decode = decode and r = r and w = w, OF assms(2-4)] http_Error_fresh [OF assms(1)]
    show ?thesis by (auto simp: Let_def putResults_append log_Println_def)
  qed
qed

text \<open>
  On the table store: an id that was never reserved gives 404, a scripted transport
  failure gives 500, a reserved id gives 200.
\<close>

theorem mark_uploaded_store_outcomes_witness:
  "ResultStatus (fst (handleMarkUploadedRequest testGlobals Decode NewRecorder
       \<lparr>Method = ''PUT'', URL_Path = ''/asset/foo'', URL_Query = Map.empty, Body = statusBody ''uploaded''\<rparr>
       ''foo'' (testWorld \<lparr>items = Map.empty, faults = []\<rparr>))) = 404
   \<and> ResultStatus (fst (handleMarkUploadedRequest testGlobals Decode NewRecorder
       \<lparr>Method = ''PUT'', URL_Path = ''/asset/foo'', URL_Query = Map.empty, Body = statusBody ''uploaded''\<rparr>
       ''foo'' (testWorld \<lparr>items = Map.empty, faults = [Some (OtherError ''foo'')]\<rparr>))) = 500
   \<and> ResultStatus (fst (handleMarkUploadedRequest testGlobals Decode NewRecorder
       \<lparr>Method = ''PUT'', URL_Path = ''/asset/foo'', URL_Query = Map.empty, Body = statusBody ''uploaded''\<rparr>
       ''foo'' (testWorld \<lparr>items = [''foo'' \<mapsto> [''id'' \<mapsto> \<lparr>S = Some ''foo''\<rparr>]], faults = []\<rparr>))) = 200"
proof -
  let ?r = "\<lparr>Method = ''PUT'', URL_Path = ''/asset/foo'', URL_Query = Map.empty,
              Body = statusBody ''uploaded''\<rparr>"
  let ?q = "\<lparr>put_Item = [''id'' \<mapsto> \<lparr>S = Some ''foo''\<rparr>, ''status'' \<mapsto> \<lparr>S = Some ''uploaded''\<rparr>],
              put_TableName = tableName testGlobals,
              put_ConditionExpression = Some ''attribute_exists(id)''\<rparr>"
  let ?w1 = "testWorld \<lparr>items = Map.empty, faults = []\<rparr>"
  let ?w2 = "testWorld \<lparr>items = Map.empty, faults = [Some (OtherError ''foo'')]\<rparr>"
  let ?w3 = "testWorld \<lparr>items = [''foo'' \<mapsto> [''id'' \<mapsto> \<lparr>S = Some ''foo''\<rparr>]], faults = []\<rparr>"
  have fresh: "StatusCode NewRecorder = None" by (simp add: NewRecorder_def)
  have dec: "Decode (Body ?r) = Inr \<lparr>Status = ''uploaded''\<rparr>"
    by (simp add: Decode_uploaded)
  have st: "Status \<lparr>Status = ''uploaded''\<rparr> = ''uploaded''" by simp
  have "\<exists>d. PutItem (dbSvc testGlobals) ?q (store ?w1)
          = (Some (AwsError ''ConditionalCheckFailedException'' ''The conditional request failed''), d)"
    by (simp add: testGlobals_def tableDB_def testWorld_def tablePut_mark)
  then obtain d1 where p1: "PutItem (dbSvc testGlobals) ?q (store ?w1)
          = (Some (AwsError ''ConditionalCheckFailedException'' ''The conditional request failed''), d1)"
    by blast
  have "\<exists>d. PutItem (dbSvc testGlobals) ?q (store ?w2) = (Some (OtherError ''foo''), d)"
    by (simp add: testGlobals_def tableDB_def testWorld_def tablePutItem_def)
  then obtain d2 where p2: "PutItem (dbSvc testGlobals) ?q (store ?w2) = (Some (OtherError ''foo''), d2)"
    by blast
  have "\<exists>d. PutItem (dbSvc testGlobals) ?q (store ?w3) = (None, d)"
    by (simp add: testGlobals_def tableDB_def testWorld_def tablePut_mark)
  then obtain d3 where p3: "PutItem (dbSvc testGlobals) ?q (store ?w3) = (None, d3)"
    by blast
  note inst = mark_uploaded_store_outcomes [where decode = Decode and r = "?r", OF fresh dec st]
  from inst [OF p1] inst [OF p2] inst [OF p3]
  show ?thesis by simp
qed

text \<open>
  What the handler does with a body, given what the decoder answers: a decoding error
  and a decoded \<open>Status\<close> other than \<open>uploaded\<close> get status 400, and the world is
  returned as it was, so the store is not called.
\<close>

lemma markUploaded_rejected:
  assumes "StatusCode w = None"
    and "(\<exists>err. decode (Body r) = Inl err)
         \<or> (\<exists>reqBody. decode (Body r) = Inr reqBody \<and> Status reqBody \<noteq> ''uploaded'')"
  shows "ResultStatus (fst (handleMarkUploadedRequest g decode w r assetID wld)) = 400
         \<and> snd (handleMarkUploadedRequest g decode w r assetID wld) = wld"
  using assms(2) http_Error_fresh [OF assms(1)]
  by (auto simp: handleMarkUploadedRequest_def status_defs assetStatusUploaded_def)

text \<open>
  The two bad bodies of main_test.go, \<^verbatim>\<open>{"Status":"other"}\<close> and
  \<^verbatim>\<open>invalidjson{"Status":"other"}\<close>, get 400 and no call of the store.
\<close>

lemma mark_uploaded_bad_payloads:
  "ResultStatus (fst (handleMarkUploadedRequest testGlobals Decode NewRecorder
       \<lparr>Method = ''PUT'', URL_Path = ''/asset/foo'', URL_Query = Map.empty, Body = statusBody ''other''\<rparr>
       ''foo'' (testWorld \<lparr>items = Map.empty, faults = []\<rparr>))) = 400
   \<and> events (snd (handleMarkUploadedRequest testGlobals Decode NewRecorder
       \<lparr>Method = ''PUT'', URL_Path = ''/asset/foo'', URL_Query = Map.empty, Body = statusBody ''other''\<rparr>
       ''foo'' (testWorld \<lparr>items = Map.empty, faults = []\<rparr>))) = []
   \<and> ResultStatus (fst (handleMarkUploadedRequest testGlobals Decode NewRecorder
       \<lparr>Method = ''PUT'', URL_Path = ''/asset/foo'', URL_Query = Map.empty,
        Body = ''invalidjson'' @ statusBody ''other''\<rparr>
       ''foo'' (testWorld \<lparr>items = Map.empty, faults = []\<rparr>))) = 400
   \<and> events (snd (handleMarkUploadedRequest testGlobals Decode NewRecorder
       \<lparr>Method = ''PUT'', URL_Path = ''/asset/foo'', URL_Query = Map.empty,
        Body = ''invalidjson'' @ statusBody ''other''\<rparr>
       ''foo'' (testWorld \<lparr>items = Map.empty, faults = []\<rparr>))) = []"
proof -
  let ?W = "testWorld \<lparr>items = Map.empty, faults = []\<rparr>"
  let ?r1 = "\<lparr>Method = ''PUT'', URL_Path = ''/asset/foo'', URL_Query = Map.empty,
               Body = statusBody ''other''\<rparr>"
  let ?r2 = "\<lparr>Method = ''PUT'', URL_Path = ''/asset/foo'', URL_Query = Map.empty,
               Body = ''invalidjson'' @ statusBody ''other''\<rparr>"
  have fresh: "StatusCode NewRecorder = None" by (simp add: NewRecorder_def)
  have ev: "events ?W = []" by (simp add: testWorld_def)
  have d1: "(\<exists>err. Decode (Body ?r1) = Inl err)
         \<or> (\<exists>reqBody. Decode (Body ?r1) = Inr reqBody \<and> Status reqBody \<noteq> ''uploaded'')"
    using Decode_examples by simp
  have d2: "(\<exists>err. Decode (Body ?r2) = Inl err)
         \<or> (\<exists>reqBody. Decode (Body ?r2) = Inr reqBody \<and> Status reqBody \<noteq> ''uploaded'')"
    using Decode_examples by simp
  from markUploaded_rejected [where decode = Decode and r = "?r1" and g = testGlobals
         and assetID = "''foo''" and wld = "?W", OF fresh d1]
       markUploaded_rejected [where decode = Decode and r = "?r2" and g = testGlobals
         and assetID = "''foo''" and wld = "?W", OF fresh d2]
       ev
  show ?thesis by simp
qed

text \<open>
  Claim C7, the failing input. The body \<^verbatim>\<open>{"Status":"uploaded"}garbage\<close> is not
  well-formed JSON. The decoder stops at the closing brace and returns the struct with
  \<open>Status = uploaded\<close>; the handler does not answer 400: it makes the conditional put,
  marks the reserved id \<open>foo\<close> uploaded and answers 200 with an empty body.
\<close>

theorem mark_uploaded_accepts_trailing_bytes:
  "ResultStatus (fst (handleMarkUploadedRequest testGlobals Decode NewRecorder
       \<lparr>Method = ''PUT'', URL_Path = ''/asset/foo'', URL_Query = Map.empty,
        Body = statusBody ''uploaded'' @ ''garbage''\<rparr>
       ''foo'' (testWorld \<lparr>items = [''foo'' \<mapsto> [''id'' \<mapsto> \<lparr>S = Some ''foo''\<rparr>]], faults = []\<rparr>))) = 200
   \<and> Output (fst (handleMarkUploadedRequest testGlobals Decode NewRecorder
       \<lparr>Method = ''PUT'', URL_Path = ''/asset/foo'', URL_Query = Map.empty,
        Body = statusBody ''uploaded'' @ ''garbage''\<rparr>
       ''foo'' (testWorld \<lparr>items = [''foo'' \<mapsto> [''id'' \<mapsto> \<lparr>S = Some ''foo''\<rparr>]], faults = []\<rparr>))) = []
   \<and> putResults (events (snd (handleMarkUploadedRequest testGlobals Decode NewRecorder
       \<lparr>Method = ''PUT'', URL_Path = ''/asset/foo'', URL_Query = Map.empty,
        Body = statusBody ''uploaded'' @ ''garbage''\<rparr>
       ''foo'' (testWorld \<lparr>items = [''foo'' \<mapsto> [''id'' \<mapsto> \<lparr>S = Some ''foo''\<rparr>]], faults = []\<rparr>))))
     = [None]
   \<and> items (store (snd (handleMarkUploadedRequest testGlobals Decode NewRecorder
       \<lparr>Method = ''PUT'', URL_Path = ''/asset/foo'', URL_Query = Map.empty,
        Body = statusBody ''uploaded'' @ ''garbage''\<rparr>
       ''foo'' (testWorld \<lparr>items = [''foo'' \<mapsto> [''id'' \<mapsto> \<lparr>S = Some ''foo''\<rparr>]], faults = []\<rparr>)))) ''foo''
     = Some [''id'' \<mapsto> \<lparr>S = Some ''foo''\<rparr>, ''status'' \<mapsto> \<lparr>S = Some ''uploaded''\<rparr>]"
proof -
  let ?r = "\<lparr>Method = ''PUT'', URL_Path = ''/asset/foo'', URL_Query = Map.empty,
              Body = statusBody ''uploaded'' @ ''garbage''\<rparr>"
  let ?u = "[''id'' \<mapsto> \<lparr>S = Some ''foo''\<rparr>, ''status'' \<mapsto> \<lparr>S = Some ''uploaded''\<rparr>]"
  let ?t = "\<lparr>items = [''foo'' \<mapsto> [''id'' \<mapsto> \<lparr>S = Some ''foo''\<rparr>]], faults = []\<rparr>"
  let ?w = "testWorld ?t"
  let ?q = "\<lparr>put_Item = ?u, put_TableName = tableName testGlobals,
              put_ConditionExpression = Some ''attribute_exists(id)''\<rparr>"
  have dec: "Decode (Body ?r) = Inr \<lparr>Status = ''uploaded''\<rparr>"
    using Decode_examples by simp
  have st: "Status \<lparr>Status = ''uploaded''\<rparr> = ''uploaded''" by simp
  have fl: "faults (store ?w) = []" by (simp add: testWorld_def)
  from tablePut_mark [OF fl, of "''foo''" "tableName testGlobals"]
  have put: "PutItem (dbSvc testGlobals) ?q (store ?w)
               = (None, (store ?w)\<lparr>items := (items (store ?w))(''foo'' \<mapsto> ?u)\<rparr>)"
    by (simp add: testGlobals_def tableDB_def testWorld_def)
  have ev: "events ?w = []" by (simp add: testWorld_def)
  from markUploaded_accepted [where decode = Decode and r = "?r" and w = NewRecorder, OF dec st put] ev
  show ?thesis
    by (simp add: Let_def ResultStatus_def NewRecorder_def StatusOK_def)
qed

section \<open>The download url\<close>

declare decimal.simps [simp del]

lemma download_after_read:
  assumes "GetItem (dbSvc g)
             \<lparr>get_Key = [''id'' \<mapsto> \<lparr>S = Some assetID\<rparr>], get_TableName = tableName g,
              get_ConsistentRead = True\<rparr> (store wld) = (Inr result, d)"
  shows "handleAssetURLRequest g w r assetID wld =
     (let wld1 = wld\<lparr>store := d, events := events wld @
                   [GetItemCall \<lparr>get_Key = [''id'' \<mapsto> \<lparr>S = Some assetID\<rparr>],
                                 get_TableName = tableName g, get_ConsistentRead = True\<rparr>]\<rparr>
      in case out_Item result ''id'' of
           None \<Rightarrow> Inr (http_Error w (notFoundMessage assetID) 404, wld1)
         | Some _ \<Rightarrow>
             (case out_Item result ''status'' of
                None \<Rightarrow> Inr (http_Error w (notCompleteMessage assetID) 202, wld1)
              | Some status \<Rightarrow>
                  (case S status of
                     None \<Rightarrow> Inl NilPointerDereference
                   | Some s \<Rightarrow>
                       if s \<noteq> ''uploaded''
                       then Inr (http_Error w (notCompleteMessage assetID) 202, wld1)
                       else (case parseTimeout w r of
                               Inl w1 \<Rightarrow> Inr (w1, wld1)
                             | Inr timeout \<Rightarrow> Inr (signDownload g w assetID timeout wld1)))))"
  using assms
  by (simp add: handleAssetURLRequest_def callGetItem_def Let_def assetStatusUploaded_def
        status_defs split: option.splits)

lemma parseTimeout_rejects:
  "StatusCode w = None \<Longrightarrow> parseTimeout w r = Inl w1 \<Longrightarrow>
   ResultStatus w1 = 400 \<and> (\<exists>msg. Output w1 = Output w @ [Line msg])"
  using http_Error_fresh [of w]
  by (auto simp: parseTimeout_def Let_def status_defs split: if_splits sum.splits)

lemma parseTimeout_default:
  "Get (URL_Query r) ''timeout'' = [] \<Longrightarrow> parseTimeout w r = Inr 60000000000"
  by (simp add: parseTimeout_def defaultDownloadTimeout_def Minute_def Second_def)

lemma signDownload_fresh:
  "StatusCode w = None \<Longrightarrow>
   signDownload g w assetID timeout wld =
     (case GetObjectRequest (s3Svc g) \<lparr>Bucket = bucketName g, Key = assetID\<rparr> timeout of
        Inl err \<Rightarrow> (w\<lparr>StatusCode := Some 500\<rparr>, log_Println (Error err) wld)
      | Inr url \<Rightarrow> (w\<lparr>StatusCode := Some 200,
                       Output := Output w @ [AssetURLJSON \<lparr>DownloadURL = url\<rparr>]\<rparr>, wld))"
  by (simp add: signDownload_def WriteHeader_fresh Write_fresh status_defs split: sum.splits)

text \<open>
  Claim C10. When the read finds no record, or a record that is not marked uploaded
  (no status attribute, or a status string other than \<open>uploaded\<close>), the response is 404,
  respectively 202, for every request \<open>r\<close>: the right-hand sides do not mention \<open>r\<close>, so
  the timeout parameter, valid or not, plays no part and no 400 is produced.
\<close>

theorem download_state_before_timeout:
  assumes "StatusCode w = None"
    and "GetItem (dbSvc g)
           \<lparr>get_Key = [''id'' \<mapsto> \<lparr>S = Some assetID\<rparr>], get_TableName = tableName g,
            get_ConsistentRead = True\<rparr> (store wld) = (Inr result, d)"
  shows "(out_Item result ''id'' = None \<longrightarrow>
            responseOf (handleAssetURLRequest g w r assetID wld)
              = Some (404, Output w @ [Line (notFoundMessage assetID)]))
       \<and> (out_Item result ''id'' \<noteq> None
           \<and> (out_Item result ''status'' = None
               \<or> (\<exists>s. out_Item result ''status'' = Some \<lparr>S = Some s\<rparr> \<and> s \<noteq> ''uploaded'')) \<longrightarrow>
            responseOf (handleAssetURLRequest g w r assetID wld)
              = Some (202, Output w @ [Line (notCompleteMessage assetID)]))"
  using http_Error_fresh [OF assms(1)] download_after_read [OF assms(2), of w r]
  by (auto simp: responseOf_def Let_def)

text \<open>
  On the table store, with the timeout \<^verbatim>\<open>abc\<close>: an unknown id gets 404 and a reserved,
  not yet uploaded id gets 202.
\<close>

theorem download_state_before_timeout_witness:
  "responseOf (handleAssetURLRequest testGlobals NewRecorder
       \<lparr>Method = ''GET'', URL_Path = ''/asset/nonexistant'', URL_Query = [''timeout'' \<mapsto> [''abc'']],
        Body = []\<rparr>
       ''nonexistant'' (testWorld \<lparr>items = Map.empty, faults = []\<rparr>))
     = Some (404, [Line (notFoundMessage ''nonexistant'')])
   \<and> responseOf (handleAssetURLRequest testGlobals NewRecorder
       \<lparr>Method = ''GET'', URL_Path = ''/asset/someID'', URL_Query = [''timeout'' \<mapsto> [''abc'']],
        Body = []\<rparr>
       ''someID'' (testWorld \<lparr>items = [''someID'' \<mapsto> [''id'' \<mapsto> \<lparr>S = Some ''someID''\<rparr>]],
                              faults = []\<rparr>))
     = Some (202, [Line (notCompleteMessage ''someID'')])"
proof -
  let ?r1 = "\<lparr>Method = ''GET'', URL_Path = ''/asset/nonexistant'',
               URL_Query = [''timeout'' \<mapsto> [''abc'']], Body = []\<rparr>"
  let ?r2 = "\<lparr>Method = ''GET'', URL_Path = ''/asset/someID'',
               URL_Query = [''timeout'' \<mapsto> [''abc'']], Body = []\<rparr>"
  let ?w1 = "testWorld \<lparr>items = Map.empty, faults = []\<rparr>"
  let ?w2 = "testWorld \<lparr>items = [''someID'' \<mapsto> [''id'' \<mapsto> \<lparr>S = Some ''someID''\<rparr>]], faults = []\<rparr>"
  have fresh: "StatusCode NewRecorder = None" by (simp add: NewRecorder_def)
  have "\<exists>d. GetItem (dbSvc testGlobals)
          \<lparr>get_Key = [''id'' \<mapsto> \<lparr>S = Some ''nonexistant''\<rparr>], get_TableName = tableName testGlobals,
           get_ConsistentRead = True\<rparr> (store ?w1) = (Inr \<lparr>out_Item = Map.empty\<rparr>, d)"
    by (simp add: testGlobals_def tableDB_def testWorld_def tableGetItem_def keyOf_def)
  then obtain d1 where g1: "GetItem (dbSvc testGlobals)
          \<lparr>get_Key = [''id'' \<mapsto> \<lparr>S = Some ''nonexistant''\<rparr>], get_TableName = tableName testGlobals,
           get_ConsistentRead = True\<rparr> (store ?w1) = (Inr \<lparr>out_Item = Map.empty\<rparr>, d1)"
    by blast
  have "\<exists>d. GetItem (dbSvc testGlobals)
          \<lparr>get_Key = [''id'' \<mapsto> \<lparr>S = Some ''someID''\<rparr>], get_TableName = tableName testGlobals,
           get_ConsistentRead = True\<rparr> (store ?w2)
        = (Inr \<lparr>out_Item = [''id'' \<mapsto> \<lparr>S = Some ''someID''\<rparr>]\<rparr>, d)"
    by (simp add: testGlobals_def tableDB_def testWorld_def tableGetItem_def keyOf_def)
  then obtain d2 where g2: "GetItem (dbSvc testGlobals)
          \<lparr>get_Key = [''id'' \<mapsto> \<lparr>S = Some ''someID''\<rparr>], get_TableName = tableName testGlobals,
           get_ConsistentRead = True\<rparr> (store ?w2)
        = (Inr \<lparr>out_Item = [''id'' \<mapsto> \<lparr>S = Some ''someID''\<rparr>]\<rparr>, d2)"
    by blast
  have h1: "out_Item \<lparr>out_Item = Map.empty\<rparr> ''id'' = None" by simp
  have h2: "out_Item \<lparr>out_Item = [''id'' \<mapsto> \<lparr>S = Some ''someID''\<rparr>]\<rparr> ''id'' \<noteq> None
      \<and> (out_Item \<lparr>out_Item = [''id'' \<mapsto> \<lparr>S = Some ''someID''\<rparr>]\<rparr> ''status'' = None
          \<or> (\<exists>s. out_Item \<lparr>out_Item = [''id'' \<mapsto> \<lparr>S = Some ''someID''\<rparr>]\<rparr> ''status''
                   = Some \<lparr>S = Some s\<rparr> \<and> s \<noteq> ''uploaded''))"
    by simp
  from download_state_before_timeout [OF fresh g1, THEN conjunct1, rule_format, OF h1, of ?r1]
       download_state_before_timeout [OF fresh g2, THEN conjunct2, rule_format, OF h2, of ?r2]
  show ?thesis by (simp add: NewRecorder_def)
qed

text \<open>
  Claim C8. For an uploaded asset and a request without a \<^verbatim>\<open>timeout\<close> query
  parameter, the url is signed for 60 seconds (60000000000 nanoseconds): the response is
  200 with the url the signer returns for that duration (500 if the signer fails).
\<close>

theorem download_default_validity:
  assumes "StatusCode w = None"
    and "GetItem (dbSvc g)
           \<lparr>get_Key = [''id'' \<mapsto> \<lparr>S = Some assetID\<rparr>], get_TableName = tableName g,
            get_ConsistentRead = True\<rparr> (store wld) = (Inr result, d)"
    and "out_Item result ''id'' \<noteq> None"
    and "out_Item result ''status'' = Some \<lparr>S = Some ''uploaded''\<rparr>"
    and "URL_Query r ''timeout'' = None"
  shows "responseOf (handleAssetURLRequest g w r assetID wld) =
     (case GetObjectRequest (s3Svc g) \<lparr>Bucket = bucketName g, Key = assetID\<rparr> (60 * 1000000000) of
        Inl err \<Rightarrow> Some (500, Output w)
      | Inr url \<Rightarrow> Some (200, Output w @ [AssetURLJSON \<lparr>DownloadURL = url\<rparr>]))"
proof -
  let ?wld1 = "wld\<lparr>store := d, events := events wld @
                   [GetItemCall \<lparr>get_Key = [''id'' \<mapsto> \<lparr>S = Some assetID\<rparr>],
                                 get_TableName = tableName g, get_ConsistentRead = True\<rparr>]\<rparr>"
  from assms(5) have "Get (URL_Query r) ''timeout'' = []" by (simp add: Get_def)
  from parseTimeout_default [OF this] have pt: "parseTimeout w r = Inr 60000000000" .
  from assms(3) obtain a where a: "out_Item result ''id'' = Some a" by auto
  from download_after_read [OF assms(2), of w r] a assms(4) pt
  have "handleAssetURLRequest g w r assetID wld = Inr (signDownload g w assetID 60000000000 ?wld1)"
    by (simp add: Let_def)
  with signDownload_fresh [OF assms(1), of g assetID 60000000000 ?wld1]
  show ?thesis
    by (simp add: responseOf_def ResultStatus_def split: sum.splits)
qed

theorem download_default_validity_witness:
  "responseOf (handleAssetURLRequest testGlobals NewRecorder
       \<lparr>Method = ''GET'', URL_Path = ''/asset/someID'', URL_Query = Map.empty, Body = []\<rparr>
       ''someID''
       (testWorld \<lparr>items = [''someID'' \<mapsto> [''id'' \<mapsto> \<lparr>S = Some ''someID''\<rparr>,
                                              ''status'' \<mapsto> \<lparr>S = Some ''uploaded''\<rparr>]],
                   faults = []\<rparr>))
     = Some (200, [AssetURLJSON
                     \<lparr>DownloadURL = ''https://s3.test/1brown2green/someID?verb=GET&expires=60''\<rparr>])"
proof -
  let ?r = "\<lparr>Method = ''GET'', URL_Path = ''/asset/someID'', URL_Query = Map.empty, Body = []\<rparr>"
  let ?it = "[''id'' \<mapsto> \<lparr>S = Some ''someID''\<rparr>, ''status'' \<mapsto> \<lparr>S = Some ''uploaded''\<rparr>]"
  let ?w = "testWorld \<lparr>items = [''someID'' \<mapsto> ?it], faults = []\<rparr>"
  have fresh: "StatusCode NewRecorder = None" by (simp add: NewRecorder_def)
  have "\<exists>d. GetItem (dbSvc testGlobals)
          \<lparr>get_Key = [''id'' \<mapsto> \<lparr>S = Some ''someID''\<rparr>], get_TableName = tableName testGlobals,
           get_ConsistentRead = True\<rparr> (store ?w) = (Inr \<lparr>out_Item = ?it\<rparr>, d)"
    by (simp add: testGlobals_def tableDB_def testWorld_def tableGetItem_def keyOf_def)
  then obtain d where g: "GetItem (dbSvc testGlobals)
          \<lparr>get_Key = [''id'' \<mapsto> \<lparr>S = Some ''someID''\<rparr>], get_TableName = tableName testGlobals,
           get_ConsistentRead = True\<rparr> (store ?w) = (Inr \<lparr>out_Item = ?it\<rparr>, d)"
    by blast
  have h1: "out_Item \<lparr>out_Item = ?it\<rparr> ''id'' \<noteq> None" by simp
  have h2: "out_Item \<lparr>out_Item = ?it\<rparr> ''status'' = Some \<lparr>S = Some ''uploaded''\<rparr>" by simp
  have h3: "URL_Query ?r ''timeout'' = None" by simp
  have url: "GetObjectRequest (s3Svc testGlobals) \<lparr>Bucket = bucketName testGlobals, Key = ''someID''\<rparr>
               (60 * 1000000000)
             = Inr ''https://s3.test/1brown2green/someID?verb=GET&expires=60''"
    by (simp add: testGlobals_def testS3_def decimal.simps)
  from download_default_validity [OF fresh g h1 h2 h3] url
  show ?thesis by (simp add: NewRecorder_def)
qed

text \<open>
  Claim C4, as stated, fails on its third case: the record carries the uploaded marker,
  the request asks for \<^verbatim>\<open>timeout=abc\<close>, and the answer is 400 with the message of
  the timeout check, not 200 with a url.
\<close>

theorem download_uploaded_bad_timeout_counterexample:
  "responseOf (handleAssetURLRequest testGlobals NewRecorder
       \<lparr>Method = ''GET'', URL_Path = ''/asset/someID'', URL_Query = [''timeout'' \<mapsto> [''abc'']],
        Body = []\<rparr>
       ''someID''
       (testWorld \<lparr>items = [''someID'' \<mapsto> [''id'' \<mapsto> \<lparr>S = Some ''someID''\<rparr>,
                                              ''status'' \<mapsto> \<lparr>S = Some ''uploaded''\<rparr>]],
                   faults = []\<rparr>))
     = Some (400, [Line ''Invalid argument for timeout, must be integer.''])"
proof -
  let ?r = "\<lparr>Method = ''GET'', URL_Path = ''/asset/someID'',
              URL_Query = [''timeout'' \<mapsto> [''abc'']], Body = []\<rparr>"
  let ?it = "[''id'' \<mapsto> \<lparr>S = Some ''someID''\<rparr>, ''status'' \<mapsto> \<lparr>S = Some ''uploaded''\<rparr>]"
  let ?w = "testWorld \<lparr>items = [''someID'' \<mapsto> ?it], faults = []\<rparr>"
  have "\<exists>d. GetItem (dbSvc testGlobals)
          \<lparr>get_Key = [''id'' \<mapsto> \<lparr>S = Some ''someID''\<rparr>], get_TableName = tableName testGlobals,
           get_ConsistentRead = True\<rparr> (store ?w) = (Inr \<lparr>out_Item = ?it\<rparr>, d)"
    by (simp add: testGlobals_def tableDB_def testWorld_def tableGetItem_def keyOf_def)
  then obtain d where g: "GetItem (dbSvc testGlobals)
          \<lparr>get_Key = [''id'' \<mapsto> \<lparr>S = Some ''someID''\<rparr>], get_TableName = tableName testGlobals,
           get_ConsistentRead = True\<rparr> (store ?w) = (Inr \<lparr>out_Item = ?it\<rparr>, d)"
    by blast
  have "\<exists>e. Atoi ''abc'' = Inl e"
    by (simp add: Atoi_def isDigit_def digitsValue_def Let_def)
  then obtain e where e: "Atoi ''abc'' = Inl e" by blast
  have pt: "parseTimeout NewRecorder ?r
              = Inl (http_Error NewRecorder ''Invalid argument for timeout, must be integer.'' 400)"
    by (simp add: parseTimeout_def Get_def e Let_def status_defs)
  from download_after_read [OF g, of NewRecorder ?r] pt
  show ?thesis
    by (simp add: Let_def responseOf_def ResultStatus_def NewRecorder_def http_Error_def
          Write_def WriteHeader_def HeaderSet_def)
qed

text \<open>
  Claim C4, amended. The handler reads the record with \<^verbatim>\<open>ConsistentRead\<close> set and
  answers by its state: no record, 404; a record without the uploaded marker (no status
  attribute, or a status string other than \<open>uploaded\<close>), 202; a record with the marker,
  200 with the signed url when the timeout parameter passes its check and the signer
  succeeds, 400 with a message when the timeout parameter is rejected, and 500 when the
  signer fails.
\<close>

theorem download_classifies_record:
  assumes "StatusCode w = None"
    and "GetItem (dbSvc g)
           \<lparr>get_Key = [''id'' \<mapsto> \<lparr>S = Some assetID\<rparr>], get_TableName = tableName g,
            get_ConsistentRead = True\<rparr> (store wld) = (Inr result, d)"
  shows "(out_Item result ''id'' = None \<longrightarrow>
            handleAssetURLRequest g w r assetID wld
              = Inr (http_Error w (notFoundMessage assetID) 404,
                     wld\<lparr>store := d, events := events wld @
                       [GetItemCall \<lparr>get_Key = [''id'' \<mapsto> \<lparr>S = Some assetID\<rparr>],
                                     get_TableName = tableName g, get_ConsistentRead = True\<rparr>]\<rparr>)
            \<and> ResultStatus (http_Error w (notFoundMessage assetID) 404) = 404)
       \<and> (out_Item result ''id'' \<noteq> None
           \<and> (out_Item result ''status'' = None
               \<or> (\<exists>s. out_Item result ''status'' = Some \<lparr>S = Some s\<rparr> \<and> s \<noteq> ''uploaded'')) \<longrightarrow>
            handleAssetURLRequest g w r assetID wld
              = Inr (http_Error w (notCompleteMessage assetID) 202,
                     wld\<lparr>store := d, events := events wld @
                       [GetItemCall \<lparr>get_Key = [''id'' \<mapsto> \<lparr>S = Some assetID\<rparr>],
                                     get_TableName = tableName g, get_ConsistentRead = True\<rparr>]\<rparr>)
            \<and> ResultStatus (http_Error w (notCompleteMessage assetID) 202) = 202)
       \<and> (out_Item result ''id'' \<noteq> None
           \<and> out_Item result ''status'' = Some \<lparr>S = Some ''uploaded''\<rparr> \<longrightarrow>
            (\<forall>timeout url.
               parseTimeout w r = Inr timeout
               \<and> GetObjectRequest (s3Svc g) \<lparr>Bucket = bucketName g, Key = assetID\<rparr> timeout = Inr url \<longrightarrow>
               handleAssetURLRequest g w r assetID wld
                 = Inr (w\<lparr>StatusCode := Some 200,
                          Output := Output w @ [AssetURLJSON \<lparr>DownloadURL = url\<rparr>]\<rparr>,
                        wld\<lparr>store := d, events := events wld @
                          [GetItemCall \<lparr>get_Key = [''id'' \<mapsto> \<lparr>S = Some assetID\<rparr>],
                                        get_TableName = tableName g, get_ConsistentRead = True\<rparr>]\<rparr>))
            \<and> (\<forall>w1. parseTimeout w r = Inl w1 \<longrightarrow>
               handleAssetURLRequest g w r assetID wld
                 = Inr (w1,
                        wld\<lparr>store := d, events := events wld @
                          [GetItemCall \<lparr>get_Key = [''id'' \<mapsto> \<lparr>S = Some assetID\<rparr>],
                                        get_TableName = tableName g, get_ConsistentRead = True\<rparr>]\<rparr>)
               \<and> ResultStatus w1 = 400 \<and> (\<exists>msg. Output w1 = Output w @ [Line msg]))
            \<and> (\<forall>timeout err.
               parseTimeout w r = Inr timeout
               \<and> GetObjectRequest (s3Svc g) \<lparr>Bucket = bucketName g, Key = assetID\<rparr> timeout = Inl err \<longrightarrow>
               handleAssetURLRequest g w r assetID wld
                 = Inr (w\<lparr>StatusCode := Some 500\<rparr>,
                        log_Println (Error err)
                          (wld\<lparr>store := d, events := events wld @
                            [GetItemCall \<lparr>get_Key = [''id'' \<mapsto> \<lparr>S = Some assetID\<rparr>],
                                          get_TableName = tableName g, get_ConsistentRead = True\<rparr>]\<rparr>))
               \<and> ResultStatus (w\<lparr>StatusCode := Some 500\<rparr>) = 500))"
proof (intro conjI impI allI)
  let ?wld1 = "wld\<lparr>store := d, events := events wld @
                 [GetItemCall \<lparr>get_Key = [''id'' \<mapsto> \<lparr>S = Some assetID\<rparr>],
                               get_TableName = tableName g, get_ConsistentRead = True\<rparr>]\<rparr>"
  note rd = download_after_read [OF assms(2), of w r]
  {
    assume "out_Item result ''id'' = None"
    with rd show "handleAssetURLRequest g w r assetID wld
                    = Inr (http_Error w (notFoundMessage assetID) 404, ?wld1)"
      by (simp add: Let_def)
    from http_Error_fresh [OF assms(1)]
    show "ResultStatus (http_Error w (notFoundMessage assetID) 404) = 404" by simp
  next
    assume "out_Item result ''id'' \<noteq> None
           \<and> (out_Item result ''status'' = None
               \<or> (\<exists>s. out_Item result ''status'' = Some \<lparr>S = Some s\<rparr> \<and> s \<noteq> ''uploaded''))"
    with rd show "handleAssetURLRequest g w r assetID wld
                    = Inr (http_Error w (notCompleteMessage assetID) 202, ?wld1)"
      by (auto simp: Let_def)
    from http_Error_fresh [OF assms(1)]
    show "ResultStatus (http_Error w (notCompleteMessage assetID) 202) = 202" by simp
  next
    fix timeout url
    assume up: "out_Item result ''id'' \<noteq> None
                \<and> out_Item result ''status'' = Some \<lparr>S = Some ''uploaded''\<rparr>"
      and ok: "parseTimeout w r = Inr timeout
               \<and> GetObjectRequest (s3Svc g) \<lparr>Bucket = bucketName g, Key = assetID\<rparr> timeout = Inr url"
    from rd up ok
    have "handleAssetURLRequest g w r assetID wld = Inr (signDownload g w assetID timeout ?wld1)"
      by (auto simp: Let_def)
    with signDownload_fresh [OF assms(1), of g assetID timeout ?wld1] ok
    show "handleAssetURLRequest g w r assetID wld
            = Inr (w\<lparr>StatusCode := Some 200,
                     Output := Output w @ [AssetURLJSON \<lparr>DownloadURL = url\<rparr>]\<rparr>, ?wld1)"
      by simp
  next
    fix w1
    assume up: "out_Item result ''id'' \<noteq> None
                \<and> out_Item result ''status'' = Some \<lparr>S = Some ''uploaded''\<rparr>"
      and rej: "parseTimeout w r = Inl w1"
    from rd up rej show "handleAssetURLRequest g w r assetID wld = Inr (w1, ?wld1)"
      by (auto simp: Let_def)
    from parseTimeout_rejects [OF assms(1) rej]
    show "ResultStatus w1 = 400" and "\<exists>msg. Output w1 = Output w @ [Line msg]" by simp_all
  next
    fix timeout err
    assume up: "out_Item result ''id'' \<noteq> None
                \<and> out_Item result ''status'' = Some \<lparr>S = Some ''uploaded''\<rparr>"
      and bad: "parseTimeout w r = Inr timeout
               \<and> GetObjectRequest (s3Svc g) \<lparr>Bucket = bucketName g, Key = assetID\<rparr> timeout = Inl err"
    from rd up bad
    have "handleAssetURLRequest g w r assetID wld = Inr (signDownload g w assetID timeout ?wld1)"
      by (auto simp: Let_def)
    with signDownload_fresh [OF assms(1), of g assetID timeout ?wld1] bad
    show "handleAssetURLRequest g w r assetID wld
            = Inr (w\<lparr>StatusCode := Some 500\<rparr>, log_Println (Error err) ?wld1)"
      by simp
    show "ResultStatus (w\<lparr>StatusCode := Some 500\<rparr>) = 500"
      by (simp add: ResultStatus_def)
  }
qed

lemma Atoi_300: "Atoi ''300'' = Inr 300"
  by (simp add: Atoi_def isDigit_def digitsValue_def Let_def)

text \<open>
  The scenario of the README on the table store: an unknown id, a reserved id and an
  uploaded id asked for with \<^verbatim>\<open>timeout=300\<close>; then the uploaded id asked for with
  \<^verbatim>\<open>timeout=abc\<close>, and with a signer that fails.
\<close>

theorem download_classifies_record_witness:
  "responseOf (handleAssetURLRequest testGlobals NewRecorder
       \<lparr>Method = ''GET'', URL_Path = ''/asset/doesnotexist'', URL_Query = Map.empty, Body = []\<rparr>
       ''doesnotexist'' (testWorld \<lparr>items = Map.empty, faults = []\<rparr>))
     = Some (404, [Line (notFoundMessage ''doesnotexist'')])
   \<and> responseOf (handleAssetURLRequest testGlobals NewRecorder
       \<lparr>Method = ''GET'', URL_Path = ''/asset/abc123'', URL_Query = Map.empty, Body = []\<rparr>
       ''abc123'' (testWorld \<lparr>items = [''abc123'' \<mapsto> [''id'' \<mapsto> \<lparr>S = Some ''abc123''\<rparr>]],
                              faults = []\<rparr>))
     = Some (202, [Line (notCompleteMessage ''abc123'')])
   \<and> responseOf (handleAssetURLRequest testGlobals NewRecorder
       \<lparr>Method = ''GET'', URL_Path = ''/asset/abc123'', URL_Query = [''timeout'' \<mapsto> [''300'']],
        Body = []\<rparr>
       ''abc123'' (testWorld \<lparr>items = [''abc123'' \<mapsto> [''id'' \<mapsto> \<lparr>S = Some ''abc123''\<rparr>,
                                                       ''status'' \<mapsto> \<lparr>S = Some ''uploaded''\<rparr>]],
                              faults = []\<rparr>))
     = Some (200, [AssetURLJSON
                     \<lparr>DownloadURL = ''https://s3.test/1brown2green/abc123?verb=GET&expires=300''\<rparr>])
   \<and> responseOf (handleAssetURLRequest testGlobals NewRecorder
       \<lparr>Method = ''GET'', URL_Path = ''/asset/abc123'', URL_Query = [''timeout'' \<mapsto> [''abc'']],
        Body = []\<rparr>
       ''abc123'' (testWorld \<lparr>items = [''abc123'' \<mapsto> [''id'' \<mapsto> \<lparr>S = Some ''abc123''\<rparr>,
                                                       ''status'' \<mapsto> \<lparr>S = Some ''uploaded''\<rparr>]],
                              faults = []\<rparr>))
     = Some (400, [Line ''Invalid argument for timeout, must be integer.''])
   \<and> responseOf (handleAssetURLRequest brokenSignerGlobals NewRecorder
       \<lparr>Method = ''GET'', URL_Path = ''/asset/abc123'', URL_Query = Map.empty, Body = []\<rparr>
       ''abc123'' (testWorld \<lparr>items = [''abc123'' \<mapsto> [''id'' \<mapsto> \<lparr>S = Some ''abc123''\<rparr>,
                                                       ''status'' \<mapsto> \<lparr>S = Some ''uploaded''\<rparr>]],
                              faults = []\<rparr>))
     = Some (500, [])"
proof -
  let ?r1 = "\<lparr>Method = ''GET'', URL_Path = ''/asset/doesnotexist'', URL_Query = Map.empty, Body = []\<rparr>"
  let ?r2 = "\<lparr>Method = ''GET'', URL_Path = ''/asset/abc123'', URL_Query = Map.empty, Body = []\<rparr>"
  let ?r3 = "\<lparr>Method = ''GET'', URL_Path = ''/asset/abc123'', URL_Query = [''timeout'' \<mapsto> [''300'']],
               Body = []\<rparr>"
  let ?r4 = "\<lparr>Method = ''GET'', URL_Path = ''/asset/abc123'', URL_Query = [''timeout'' \<mapsto> [''abc'']],
               Body = []\<rparr>"
  let ?it2 = "[''id'' \<mapsto> \<lparr>S = Some ''abc123''\<rparr>]"
  let ?it3 = "[''id'' \<mapsto> \<lparr>S = Some ''abc123''\<rparr>, ''status'' \<mapsto> \<lparr>S = Some ''uploaded''\<rparr>]"
  let ?w1 = "testWorld \<lparr>items = Map.empty, faults = []\<rparr>"
  let ?w2 = "testWorld \<lparr>items = [''abc123'' \<mapsto> ?it2], faults = []\<rparr>"
  let ?w3 = "testWorld \<lparr>items = [''abc123'' \<mapsto> ?it3], faults = []\<rparr>"
  have fresh: "StatusCode NewRecorder = None" by (simp add: NewRecorder_def)
  have "\<exists>d. GetItem (dbSvc testGlobals)
          \<lparr>get_Key = [''id'' \<mapsto> \<lparr>S = Some ''doesnotexist''\<rparr>], get_TableName = tableName testGlobals,
           get_ConsistentRead = True\<rparr> (store ?w1) = (Inr \<lparr>out_Item = Map.empty\<rparr>, d)"
    by (simp add: testGlobals_def tableDB_def testWorld_def tableGetItem_def keyOf_def)
  then obtain d1 where g1: "GetItem (dbSvc testGlobals)
          \<lparr>get_Key = [''id'' \<mapsto> \<lparr>S = Some ''doesnotexist''\<rparr>], get_TableName = tableName testGlobals,
           get_ConsistentRead = True\<rparr> (store ?w1) = (Inr \<lparr>out_Item = Map.empty\<rparr>, d1)"
    by blast
  have "\<exists>d. GetItem (dbSvc testGlobals)
          \<lparr>get_Key = [''id'' \<mapsto> \<lparr>S = Some ''abc123''\<rparr>], get_TableName = tableName testGlobals,
           get_ConsistentRead = True\<rparr> (store ?w2) = (Inr \<lparr>out_Item = ?it2\<rparr>, d)"
    by (simp add: testGlobals_def tableDB_def testWorld_def tableGetItem_def keyOf_def)
  then obtain d2 where g2: "GetItem (dbSvc testGlobals)
          \<lparr>get_Key = [''id'' \<mapsto> \<lparr>S = Some ''abc123''\<rparr>], get_TableName = tableName testGlobals,
           get_ConsistentRead = True\<rparr> (store ?w2) = (Inr \<lparr>out_Item = ?it2\<rparr>, d2)"
    by blast
  have "\<exists>d. GetItem (dbSvc testGlobals)
          \<lparr>get_Key = [''id'' \<mapsto> \<lparr>S = Some ''abc123''\<rparr>], get_TableName = tableName testGlobals,
           get_ConsistentRead = True\<rparr> (store ?w3) = (Inr \<lparr>out_Item = ?it3\<rparr>, d)"
    by (simp add: testGlobals_def tableDB_def testWorld_def tableGetItem_def keyOf_def)
  then obtain d3 where g3: "GetItem (dbSvc testGlobals)
          \<lparr>get_Key = [''id'' \<mapsto> \<lparr>S = Some ''abc123''\<rparr>], get_TableName = tableName testGlobals,
           get_ConsistentRead = True\<rparr> (store ?w3) = (Inr \<lparr>out_Item = ?it3\<rparr>, d3)"
    by blast
  have "\<exists>d. GetItem (dbSvc brokenSignerGlobals)
          \<lparr>get_Key = [''id'' \<mapsto> \<lparr>S = Some ''abc123''\<rparr>], get_TableName = tableName brokenSignerGlobals,
           get_ConsistentRead = True\<rparr> (store ?w3) = (Inr \<lparr>out_Item = ?it3\<rparr>, d)"
    by (simp add: brokenSignerGlobals_def testGlobals_def tableDB_def testWorld_def tableGetItem_def
          keyOf_def)
  then obtain d5 where g5: "GetItem (dbSvc brokenSignerGlobals)
          \<lparr>get_Key = [''id'' \<mapsto> \<lparr>S = Some ''abc123''\<rparr>], get_TableName = tableName brokenSignerGlobals,
           get_ConsistentRead = True\<rparr> (store ?w3) = (Inr \<lparr>out_Item = ?it3\<rparr>, d5)"
    by blast
  have h1: "out_Item \<lparr>out_Item = Map.empty\<rparr> ''id'' = None" by simp
  have h2: "out_Item \<lparr>out_Item = ?it2\<rparr> ''id'' \<noteq> None
      \<and> (out_Item \<lparr>out_Item = ?it2\<rparr> ''status'' = None
          \<or> (\<exists>s. out_Item \<lparr>out_Item = ?it2\<rparr> ''status'' = Some \<lparr>S = Some s\<rparr> \<and> s \<noteq> ''uploaded''))"
    by simp
  have h3: "out_Item \<lparr>out_Item = ?it3\<rparr> ''id'' \<noteq> None
      \<and> out_Item \<lparr>out_Item = ?it3\<rparr> ''status'' = Some \<lparr>S = Some ''uploaded''\<rparr>"
    by simp
  have h4: "parseTimeout NewRecorder ?r3 = Inr 300000000000
      \<and> GetObjectRequest (s3Svc testGlobals) \<lparr>Bucket = bucketName testGlobals, Key = ''abc123''\<rparr>
            300000000000
          = Inr ''https://s3.test/1brown2green/abc123?verb=GET&expires=300''"
    by (simp add: parseTimeout_def Get_def Atoi_300 Second_def maxDownloadTimeout_def Hour_def
          Minute_def Let_def testGlobals_def testS3_def decimal.simps)
  have "\<exists>e. Atoi ''abc'' = Inl e"
    by (simp add: Atoi_def isDigit_def digitsValue_def Let_def)
  then obtain e where e: "Atoi ''abc'' = Inl e" by blast
  have h5: "parseTimeout NewRecorder ?r4
              = Inl (http_Error NewRecorder ''Invalid argument for timeout, must be integer.'' 400)"
    by (simp add: parseTimeout_def Get_def e Let_def status_defs)
  have h6: "parseTimeout NewRecorder ?r2 = Inr 60000000000
      \<and> GetObjectRequest (s3Svc brokenSignerGlobals)
            \<lparr>Bucket = bucketName brokenSignerGlobals, Key = ''abc123''\<rparr> 60000000000
          = Inl (OtherError ''signing failed'')"
    by (simp add: parseTimeout_default Get_def brokenSignerGlobals_def brokenS3_def)
  from download_classifies_record [OF fresh g1, where r = ?r1, THEN conjunct1, rule_format, OF h1]
  have c1: "responseOf (handleAssetURLRequest testGlobals NewRecorder ?r1 ''doesnotexist'' ?w1)
              = Some (404, [Line (notFoundMessage ''doesnotexist'')])"
    by (simp add: responseOf_def NewRecorder_def http_Error_def Write_def WriteHeader_def
          HeaderSet_def Let_def)
  from download_classifies_record [OF fresh g2, where r = ?r2, THEN conjunct2, THEN conjunct1,
         rule_format, OF h2]
  have c2: "responseOf (handleAssetURLRequest testGlobals NewRecorder ?r2 ''abc123'' ?w2)
              = Some (202, [Line (notCompleteMessage ''abc123'')])"
    by (simp add: responseOf_def NewRecorder_def http_Error_def Write_def WriteHeader_def
          HeaderSet_def Let_def)
  from download_classifies_record [OF fresh g3, where r = ?r3, THEN conjunct2, THEN conjunct2,
         rule_format, OF h3, THEN conjunct1, rule_format, OF h4]
  have c3: "responseOf (handleAssetURLRequest testGlobals NewRecorder ?r3 ''abc123'' ?w3)
              = Some (200, [AssetURLJSON
                     \<lparr>DownloadURL = ''https://s3.test/1brown2green/abc123?verb=GET&expires=300''\<rparr>])"
    by (simp add: responseOf_def NewRecorder_def ResultStatus_def)
  from download_classifies_record [OF fresh g3, where r = ?r4, THEN conjunct2, THEN conjunct2,
         rule_format, OF h3, THEN conjunct2, THEN conjunct1, rule_format, OF h5]
  have c4: "responseOf (handleAssetURLRequest testGlobals NewRecorder ?r4 ''abc123'' ?w3)
              = Some (400, [Line ''Invalid argument for timeout, must be integer.''])"
    by (simp add: responseOf_def NewRecorder_def http_Error_def Write_def WriteHeader_def
          HeaderSet_def Let_def)
  from download_classifies_record [OF fresh g5, where r = ?r2, THEN conjunct2, THEN conjunct2,
         rule_format, OF h3, THEN conjunct2, THEN conjunct2, rule_format, OF h6]
  have c5: "responseOf (handleAssetURLRequest brokenSignerGlobals NewRecorder ?r2 ''abc123'' ?w3)
              = Some (500, [])"
    by (simp add: responseOf_def NewRecorder_def ResultStatus_def)
  from c1 c2 c3 c4 c5 show ?thesis by blast
qed

section \<open>The range check of the timeout\<close>

lemma sint_seconds:
  fixes n :: "64 word"
  assumes "- 9223372036 \<le> sint n" and "sint n \<le> 9223372036"
  shows "sint (n * 1000000000) = sint n * 1000000000"
proof -
  have "sint (n * 1000000000) = signed_take_bit 63 (sint n * sint (1000000000 :: 64 word))"
    by (simp add: sint_word_ariths)
  also have "sint (1000000000 :: 64 word) = 1000000000" by simp
  also have "signed_take_bit 63 (sint n * 1000000000) = sint n * 1000000000"
    using assms by (intro signed_take_bit_int_eq_self) simp_all
  finally show ?thesis .
qed

text \<open>
  As long as the product \<open>timeoutSec * Second\<close> does not leave the 64 bits, the check
  rejects exactly the values outside 1 .. 86400.
\<close>

lemma timeout_check_exact:
  fixes n :: "64 word"
  assumes "- 9223372036 \<le> sint n" and "sint n \<le> 9223372036"
  shows "(n * Second <s Second \<or> maxDownloadTimeout <s n * Second)
           \<longleftrightarrow> \<not> (1 \<le> sint n \<and> sint n \<le> 86400)"
  using sint_seconds [OF assms]
  by (auto simp: word_sless_alt Second_def maxDownloadTimeout_def Hour_def Minute_def)

lemmas atoi_defs = Atoi_def isDigit_def digitsValue_def Let_def

lemmas timeout_defs = parseTimeout_def Get_def Second_def maxDownloadTimeout_def Hour_def
  Minute_def Let_def

text \<open>The values the specification lists: four rejected with 400, two accepted.\<close>

lemma timeout_examples:
  "(\<forall>ts \<in> {''0'', ''-5'', ''86401'', ''abc''}.
      \<exists>w1. parseTimeout NewRecorder
              \<lparr>Method = ''GET'', URL_Path = ''/asset/someID'', URL_Query = [''timeout'' \<mapsto> [ts]],
               Body = []\<rparr> = Inl w1 \<and> ResultStatus w1 = 400)
   \<and> parseTimeout NewRecorder
        \<lparr>Method = ''GET'', URL_Path = ''/asset/someID'', URL_Query = [''timeout'' \<mapsto> [''1'']],
         Body = []\<rparr> = Inr 1000000000
   \<and> parseTimeout NewRecorder
        \<lparr>Method = ''GET'', URL_Path = ''/asset/someID'', URL_Query = [''timeout'' \<mapsto> [''86400'']],
         Body = []\<rparr> = Inr 86400000000000"
proof -
  have a: "Atoi ''0'' = Inr 0" "Atoi ''-5'' = Inr (- 5)" "Atoi ''86401'' = Inr 86401"
    "\<exists>e. Atoi ''abc'' = Inl e" "Atoi ''1'' = Inr 1" "Atoi ''86400'' = Inr 86400"
    by (simp_all add: atoi_defs)
  from a(4) obtain e where e: "Atoi ''abc'' = Inl e" by blast
  show ?thesis
    by (simp add: timeout_defs a(1-3,5,6) e NewRecorder_def http_Error_def Write_def
          WriteHeader_def HeaderSet_def ResultStatus_def status_defs word_sless_alt)
qed

text \<open>
  Claim C3, the failing input. The timeout 36028797018963969 is \<open>2^55 + 1\<close> seconds, far
  more than 24 hours. \<^verbatim>\<open>Atoi\<close> accepts it, the product with \<open>Second\<close> wraps around to
  exactly one second, the range check passes, and the url is signed for 1 second with
  status 200.
\<close>

theorem download_timeout_wraps_around:
  "responseOf (handleAssetURLRequest testGlobals NewRecorder
       \<lparr>Method = ''GET'', URL_Path = ''/asset/someID'',
        URL_Query = [''timeout'' \<mapsto> [''36028797018963969'']], Body = []\<rparr>
       ''someID''
       (testWorld \<lparr>items = [''someID'' \<mapsto> [''id'' \<mapsto> \<lparr>S = Some ''someID''\<rparr>,
                                              ''status'' \<mapsto> \<lparr>S = Some ''uploaded''\<rparr>]],
                   faults = []\<rparr>))
     = Some (200, [AssetURLJSON
                     \<lparr>DownloadURL = ''https://s3.test/1brown2green/someID?verb=GET&expires=1''\<rparr>])"
proof -
  let ?r = "\<lparr>Method = ''GET'', URL_Path = ''/asset/someID'',
              URL_Query = [''timeout'' \<mapsto> [''36028797018963969'']], Body = []\<rparr>"
  let ?it = "[''id'' \<mapsto> \<lparr>S = Some ''someID''\<rparr>, ''status'' \<mapsto> \<lparr>S = Some ''uploaded''\<rparr>]"
  let ?w = "testWorld \<lparr>items = [''someID'' \<mapsto> ?it], faults = []\<rparr>"
  have fresh: "StatusCode NewRecorder = None" by (simp add: NewRecorder_def)
  have "\<exists>d. GetItem (dbSvc testGlobals)
          \<lparr>get_Key = [''id'' \<mapsto> \<lparr>S = Some ''someID''\<rparr>], get_TableName = tableName testGlobals,
           get_ConsistentRead = True\<rparr> (store ?w) = (Inr \<lparr>out_Item = ?it\<rparr>, d)"
    by (simp add: testGlobals_def tableDB_def testWorld_def tableGetItem_def keyOf_def)
  then obtain d where g: "GetItem (dbSvc testGlobals)
          \<lparr>get_Key = [''id'' \<mapsto> \<lparr>S = Some ''someID''\<rparr>], get_TableName = tableName testGlobals,
           get_ConsistentRead = True\<rparr> (store ?w) = (Inr \<lparr>out_Item = ?it\<rparr>, d)"
    by blast
  have atoi: "Atoi ''36028797018963969'' = Inr 36028797018963969"
    by (simp add: atoi_defs)
  have pt: "parseTimeout NewRecorder ?r = Inr 1000000000"
    by (simp add: timeout_defs atoi)
  have url: "GetObjectRequest (s3Svc testGlobals) \<lparr>Bucket = bucketName testGlobals, Key = ''someID''\<rparr>
               1000000000
             = Inr ''https://s3.test/1brown2green/someID?verb=GET&expires=1''"
    by (simp add: testGlobals_def testS3_def decimal.simps)
  from download_after_read [OF g, of NewRecorder ?r] pt
       signDownload_fresh [OF fresh, of testGlobals "''someID''" 1000000000] url
  show ?thesis
    by (simp add: Let_def responseOf_def ResultStatus_def NewRecorder_def)
qed

section \<open>Marking twice\<close>

text \<open>
  Claim C6. On the table store, without a transport failure: marking an id whose record
  exists succeeds silently (nothing is written to the response, status 200) whatever
  the record held before, because the condition is \<^verbatim>\<open>attribute_exists(id)\<close> only; the
  record then carries the status \<open>uploaded\<close>. When the record already was the uploaded
  record, the records are left as they were, and marking once more changes nothing
  again.
\<close>

theorem mark_uploaded_idempotent:
  assumes "StatusCode w = None"
    and "decode (Body r) = Inr reqBody" and "Status reqBody = ''uploaded''"
    and "dbSvc g = tableDB" and "faults (store wld) = []"
    and "items (store wld) assetID = Some it"
  shows "fst (handleMarkUploadedRequest g decode w r assetID wld) = w
       \<and> ResultStatus (fst (handleMarkUploadedRequest g decode w r assetID wld)) = 200
       \<and> items (store (snd (handleMarkUploadedRequest g decode w r assetID wld)))
           = (items (store wld))(assetID \<mapsto> [''id'' \<mapsto> \<lparr>S = Some assetID\<rparr>,
                                                ''status'' \<mapsto> \<lparr>S = Some ''uploaded''\<rparr>])
       \<and> (it = [''id'' \<mapsto> \<lparr>S = Some assetID\<rparr>, ''status'' \<mapsto> \<lparr>S = Some ''uploaded''\<rparr>] \<longrightarrow>
            items (store (snd (handleMarkUploadedRequest g decode w r assetID wld)))
              = items (store wld))
       \<and> fst (handleMarkUploadedRequest g decode w r assetID
                 (snd (handleMarkUploadedRequest g decode w r assetID wld))) = w
       \<and> items (store (snd (handleMarkUploadedRequest g decode w r assetID
                 (snd (handleMarkUploadedRequest g decode w r assetID wld)))))
           = items (store (snd (handleMarkUploadedRequest g decode w r assetID wld)))"
proof -
  let ?u = "[''id'' \<mapsto> \<lparr>S = Some assetID\<rparr>, ''status'' \<mapsto> \<lparr>S = Some ''uploaded''\<rparr>]"
  let ?q = "\<lparr>put_Item = ?u, put_TableName = tableName g,
              put_ConditionExpression = Some ''attribute_exists(id)''\<rparr>"
  have once: "fst (handleMarkUploadedRequest g decode w r assetID x) = w
      \<and> items (store (snd (handleMarkUploadedRequest g decode w r assetID x)))
           = (items (store x))(assetID \<mapsto> ?u)
      \<and> faults (store (snd (handleMarkUploadedRequest g decode w r assetID x))) = []"
    if f: "faults (store x) = []" and i: "items (store x) assetID \<noteq> None" for x
  proof -
    from tablePut_mark [OF f, of assetID "tableName g"] i assms(4)
    have "PutItem (dbSvc g) ?q (store x)
            = (None, (store x)\<lparr>items := (items (store x))(assetID \<mapsto> ?u)\<rparr>)"
      by (simp add: tableDB_def)
    from markUploaded_accepted [where decode = decode and r = r and w = w, OF assms(2,3) this] f
    show ?thesis by (simp add: Let_def)
  qed
  from assms(6) have i1: "items (store wld) assetID \<noteq> None" by simp
  note first = once [OF assms(5) i1]
  let ?wld1 = "snd (handleMarkUploadedRequest g decode w r assetID wld)"
  from first have f2: "faults (store ?wld1) = []" and i2: "items (store ?wld1) assetID \<noteq> None"
    by simp_all
  note second = once [OF f2 i2]
  from first have same: "it = ?u \<longrightarrow> items (store ?wld1) = items (store wld)"
    using assms(6) by (auto simp: fun_upd_idem)
  from first second have again: "items (store (snd (handleMarkUploadedRequest g decode w r assetID ?wld1)))
      = items (store ?wld1)"
    by simp
  from first second same again ResultStatus_fresh [OF assms(1)] show ?thesis by simp
qed

text \<open>
  The id \<open>foo\<close> is already uploaded in the table: marking it again answers 200 with an
  empty body and the record still carries the status \<open>uploaded\<close>.
\<close>

theorem mark_uploaded_idempotent_witness:
  "ResultStatus (fst (handleMarkUploadedRequest testGlobals Decode NewRecorder
       \<lparr>Method = ''PUT'', URL_Path = ''/asset/foo'', URL_Query = Map.empty, Body = statusBody ''uploaded''\<rparr>
       ''foo''
       (testWorld \<lparr>items = [''foo'' \<mapsto> [''id'' \<mapsto> \<lparr>S = Some ''foo''\<rparr>,
                                           ''status'' \<mapsto> \<lparr>S = Some ''uploaded''\<rparr>]],
                   faults = []\<rparr>))) = 200
   \<and> Output (fst (handleMarkUploadedRequest testGlobals Decode NewRecorder
       \<lparr>Method = ''PUT'', URL_Path = ''/asset/foo'', URL_Query = Map.empty, Body = statusBody ''uploaded''\<rparr>
       ''foo''
       (testWorld \<lparr>items = [''foo'' \<mapsto> [''id'' \<mapsto> \<lparr>S = Some ''foo''\<rparr>,
                                           ''status'' \<mapsto> \<lparr>S = Some ''uploaded''\<rparr>]],
                   faults = []\<rparr>))) = []
   \<and> items (store (snd (handleMarkUploadedRequest testGlobals Decode NewRecorder
       \<lparr>Method = ''PUT'', URL_Path = ''/asset/foo'', URL_Query = Map.empty, Body = statusBody ''uploaded''\<rparr>
       ''foo''
       (testWorld \<lparr>items = [''foo'' \<mapsto> [''id'' \<mapsto> \<lparr>S = Some ''foo''\<rparr>,
                                           ''status'' \<mapsto> \<lparr>S = Some ''uploaded''\<rparr>]],
                   faults = []\<rparr>))))
     = [''foo'' \<mapsto> [''id'' \<mapsto> \<lparr>S = Some ''foo''\<rparr>, ''status'' \<mapsto> \<lparr>S = Some ''uploaded''\<rparr>]]"
proof -
  let ?r = "\<lparr>Method = ''PUT'', URL_Path = ''/asset/foo'', URL_Query = Map.empty,
              Body = statusBody ''uploaded''\<rparr>"
  let ?u = "[''id'' \<mapsto> \<lparr>S = Some ''foo''\<rparr>, ''status'' \<mapsto> \<lparr>S = Some ''uploaded''\<rparr>]"
  let ?w = "testWorld \<lparr>items = [''foo'' \<mapsto> ?u], faults = []\<rparr>"
  have fresh: "StatusCode NewRecorder = None" by (simp add: NewRecorder_def)
  have dec: "Decode (Body ?r) = Inr \<lparr>Status = ''uploaded''\<rparr>"
    by (simp add: Decode_uploaded)
  have st: "Status \<lparr>Status = ''uploaded''\<rparr> = ''uploaded''" by simp
  have db: "dbSvc testGlobals = tableDB" by (simp add: testGlobals_def)
  have fl: "faults (store ?w) = []" by (simp add: testWorld_def)
  have it: "items (store ?w) ''foo'' = Some ?u" by (simp add: testWorld_def)
  have ev: "items (store ?w) = [''foo'' \<mapsto> ?u]" by (simp add: testWorld_def)
  note inst = mark_uploaded_idempotent [where decode = Decode and r = "?r", OF fresh dec st db fl it]
  from inst have a: "fst (handleMarkUploadedRequest testGlobals Decode NewRecorder ?r ''foo'' ?w)
      = NewRecorder" by blast
  from inst have b: "items (store (snd (handleMarkUploadedRequest testGlobals Decode NewRecorder ?r
      ''foo'' ?w))) = items (store ?w)" by blast
  from inst have c: "ResultStatus (fst (handleMarkUploadedRequest testGlobals Decode NewRecorder ?r
      ''foo'' ?w)) = 200" by blast
  have o: "Output NewRecorder = []" by (simp add: NewRecorder_def)
  from a b c o ev show ?thesis by (simp only:)
qed

end

